theory Spec2Isabelle
  imports Complex_Main
begin

section \<open>Application errors (internal/apperrors)\<close>

text \<open>
  Go errors are values. The sentinel errors of package apperrors are constructors, a
  \<^verbatim>\<open>*ValidationError\<close> carries its field and message, \<^verbatim>\<open>sql.ErrNoRows\<close> and a
  PostgreSQL error (with its SQLSTATE code) are the two database errors the code inspects.
  \<^verbatim>\<open>fmt.Errorf("...: %w", err)\<close> wraps an error and keeps it reachable for
  \<^verbatim>\<open>errors.Is\<close> and \<^verbatim>\<open>errors.As\<close>; \<^verbatim>\<open>fmt.Errorf\<close> with \<^verbatim>\<open>%v\<close> (or without an
  error argument) yields an error with no chain. The message texts of wrapped errors are
  not modelled.
\<close>

datatype ValidationField =
  INVALID_EMAIL | INVALID_NAME | INVALID_PASSWORD | INVALID_ID | INVALID_DATE
  | INVALID_SETTING | INVALID_INPUT

datatype go_error =
  ErrNotFound
  | ErrAlreadyExists
  | ErrInvalidInput
  | ErrInternal
  | ErrUnauthorized
  | ErrForbidden
  | ErrForeignKeyViolation
  | ValidationError ValidationField string
  | ErrNoRows
  | PqError string
  | Errorf_w go_error
  | Errorf_v

fun ValidationField_string :: "ValidationField \<Rightarrow> string" where
  "ValidationField_string INVALID_EMAIL = ''INVALID_EMAIL''"
| "ValidationField_string INVALID_NAME = ''INVALID_NAME''"
| "ValidationField_string INVALID_PASSWORD = ''INVALID_PASSWORD''"
| "ValidationField_string INVALID_ID = ''INVALID_ID''"
| "ValidationField_string INVALID_DATE = ''INVALID_DATE''"
| "ValidationField_string INVALID_SETTING = ''INVALID_SETTING''"
| "ValidationField_string INVALID_INPUT = ''INVALID_INPUT''"

abbreviation NOT_FOUND :: string where "NOT_FOUND \<equiv> ''NOT_FOUND''"
abbreviation ALREADY_EXISTS :: string where "ALREADY_EXISTS \<equiv> ''ALREADY_EXISTS''"
abbreviation UNAUTHORIZED :: string where "UNAUTHORIZED \<equiv> ''UNAUTHORIZED''"
abbreviation FORBIDDEN :: string where "FORBIDDEN \<equiv> ''FORBIDDEN''"
abbreviation INTERNAL_ERROR :: string where "INTERNAL_ERROR \<equiv> ''INTERNAL_ERROR''"
abbreviation BAD_REQUEST :: string where "BAD_REQUEST \<equiv> ''BAD_REQUEST''"

text \<open>\<^verbatim>\<open>errors.Is(err, target)\<close>: walks the chain of \<^verbatim>\<open>%w\<close> wrappers.\<close>

fun errors_Is :: "go_error \<Rightarrow> go_error \<Rightarrow> bool" where
  "errors_Is (Errorf_w e) target = (Errorf_w e = target \<or> errors_Is e target)"
| "errors_Is e target = (e = target)"

text \<open>\<^verbatim>\<open>errors.As(err, &valErr)\<close> with \<^verbatim>\<open>valErr *apperrors.ValidationError\<close>.\<close>

fun errors_As_ValidationError :: "go_error \<Rightarrow> (ValidationField \<times> string) option" where
  "errors_As_ValidationError (ValidationError f m) = Some (f, m)"
| "errors_As_ValidationError (Errorf_w e) = errors_As_ValidationError e"
| "errors_As_ValidationError e = None"

text \<open>\<^verbatim>\<open>errors.As(err, &pqErr)\<close> with \<^verbatim>\<open>pqErr *pq.Error\<close>: the SQLSTATE code found.\<close>

fun errors_As_pq_Error :: "go_error \<Rightarrow> string option" where
  "errors_As_pq_Error (PqError code) = Some code"
| "errors_As_pq_Error (Errorf_w e) = errors_As_pq_Error e"
| "errors_As_pq_Error e = None"

section \<open>The relational store (database/sql/schema.sql)\<close>

text \<open>
  The PostgreSQL database is an explicit state: one list of rows per table, the three
  SERIAL sequences, and the server clock read by \<^verbatim>\<open>CURRENT_TIMESTAMP\<close>. Instants
  (\<^verbatim>\<open>time.Time\<close>, \<^verbatim>\<open>TIMESTAMP WITH TIME ZONE\<close>) are integers. A nullable text column
  (\<^verbatim>\<open>sql.NullString\<close>) is a \<open>string option\<close>, \<open>None\<close> being NULL. The weight of an
  exercise plan (\<^verbatim>\<open>float32\<close>, column FLOAT) is only copied and compared with zero; it is a
  real number here.

  The code reaches the database through \<^verbatim>\<open>database/sql\<close>, and every call it makes there
  can fail for reasons that are not in the data (a lost connection, a cancelled context,
  a value that cannot be converted). The field \<open>driver\<close> of the store gives, for each
  such call of each statement of the repositories, the error the call returns, or \<open>None\<close>
  when it works. No statement changes it.
\<close>

text \<open>The statements the repositories send, one name per call site.\<close>

datatype statement =
  CreateUser_insert
  | GetUserByEmail_select
  | ExistUser_select
  | CreateWorkout_insert
  | GetWorkoutById_select
  | UpdateWorkout_select
  | UpdateWorkout_update
  | DeleteWorkoutById_delete_exercise_plans
  | DeleteWorkoutById_delete_workout_plan
  | ListWorkoutsByStatus_select
  | ListUserWorkouts_select
  | CreateExercisePlan_select
  | CreateExercisePlan_insert
  | UpdateExercisePlan_select
  | UpdateExercisePlan_update
  | ListExercisePlans_select

text \<open>
  The calls into \<^verbatim>\<open>database/sql\<close>. \<open>Query\<close> is the execution of a statement that
  returns rows (its failure is reported by \<^verbatim>\<open>QueryContext\<close>, or by \<^verbatim>\<open>Scan\<close> after
  \<^verbatim>\<open>QueryRowContext\<close>) and \<open>Scan\<close> the reading of a row that was returned.
\<close>

datatype driver_call =
  BeginTx
  | Commit
  | PrepareContext statement
  | Query statement
  | Scan statement
  | Rows_Err statement
  | Exec statement
  | Result_RowsAffected statement

type_synonym Time = int
type_synonym float32 = real
type_synonym WPStatus = string
type_synonym WeightUnit = string

abbreviation PENDING :: WPStatus where "PENDING \<equiv> ''pending''"
abbreviation COMPLETED :: WPStatus where "COMPLETED \<equiv> ''completed''"
abbreviation MISSED :: WPStatus where "MISSED \<equiv> ''missed''"

abbreviation KG :: WeightUnit where "KG \<equiv> ''kg''"
abbreviation LBS :: WeightUnit where "LBS \<equiv> ''lbs''"
abbreviation OTHER :: WeightUnit where "OTHER \<equiv> ''other''"

record repository_User =
  u_Id :: int
  u_Name :: string
  u_Email :: string
  u_PasswordHash :: string
  u_CreatedAt :: Time
  u_UpdatedAt :: Time

record UserCreate =
  uc_Name :: string
  uc_Email :: string
  uc_PasswordHash :: string

record repository_Exercise =
  ex_Id :: int
  ex_Name :: string
  ex_Description :: string
  ex_MuscleGroup :: string

record repository_WorkoutPlan =
  wp_Id :: int
  wp_UserId :: int
  wp_Status :: WPStatus
  wp_ScheduledDate :: Time
  wp_Comment :: "string option"
  wp_CreatedAt :: Time
  wp_UpdatedAt :: Time

record CreateWP =
  cwp_UserId :: int
  cwp_ScheduledDate :: Time
  cwp_Comment :: "string option"

record UpdateWP =
  uwp_Id :: int
  uwp_Status :: WPStatus
  uwp_ScheduledDate :: "Time option"
  uwp_Comment :: "string option"

record repository_ExercisePlan =
  ep_Id :: int
  ep_ExerciseId :: int
  ep_WorkoutPlanId :: int
  ep_Sets :: int
  ep_Repetitions :: int
  ep_Weights :: float32
  ep_WeightUnit :: WeightUnit

record CreateEP =
  cep_ExerciseId :: int
  cep_Sets :: int
  cep_Repetitions :: int
  cep_Weights :: float32
  cep_WeightUnit :: WeightUnit

record UpdateEP =
  uep_Id :: int
  uep_Sets :: "int option"
  uep_Repetitions :: "int option"
  uep_Weights :: "float32 option"
  uep_WeightUnit :: "WeightUnit option"

record db =
  users :: "repository_User list"
  exercises :: "repository_Exercise list"
  workout_plans :: "repository_WorkoutPlan list"
  exercise_plans :: "repository_ExercisePlan list"
  users_id_seq :: int
  workout_plans_id_seq :: int
  exercise_plans_id_seq :: int
  CURRENT_TIMESTAMP :: Time
  driver :: "driver_call \<Rightarrow> go_error option"

text \<open>SQLSTATE codes of the constraint violations the schema can raise.\<close>

abbreviation unique_violation :: string where "unique_violation \<equiv> ''23505''"
abbreviation foreign_key_violation :: string where "foreign_key_violation \<equiv> ''23503''"
abbreviation check_violation :: string where "check_violation \<equiv> ''23514''"

text \<open>\<^verbatim>\<open>CHECK (status IN ('pending', 'completed', 'missed'))\<close> on workout_plans.\<close>

definition check_status :: "WPStatus \<Rightarrow> bool" where
  "check_status s \<longleftrightarrow> s = PENDING \<or> s = COMPLETED \<or> s = MISSED"

text \<open>\<^verbatim>\<open>CHECK (weight_unit IN ('kg', 'lbs', 'other'))\<close> on exercise_plans.\<close>

definition check_weight_unit :: "WeightUnit \<Rightarrow> bool" where
  "check_weight_unit u \<longleftrightarrow> u = KG \<or> u = LBS \<or> u = OTHER"

text \<open>SQL \<^verbatim>\<open>COALESCE(p, column)\<close>: the parameter unless it is NULL.\<close>

definition COALESCE :: "'a option \<Rightarrow> 'a \<Rightarrow> 'a" where
  "COALESCE p c = (case p of None \<Rightarrow> c | Some v \<Rightarrow> v)"

text \<open>The same on a nullable column, whose value may itself be NULL.\<close>

definition COALESCE_nullable :: "'a option \<Rightarrow> 'a option \<Rightarrow> 'a option" where
  "COALESCE_nullable p c = (case p of None \<Rightarrow> c | Some v \<Rightarrow> Some v)"

text \<open>\<^verbatim>\<open>UPDATE t SET ... WHERE cond\<close>: every row that satisfies the condition is rewritten.\<close>

definition sql_update :: "('r \<Rightarrow> bool) \<Rightarrow> ('r \<Rightarrow> 'r) \<Rightarrow> 'r list \<Rightarrow> 'r list" where
  "sql_update cond set_cols rows = map (\<lambda>r. if cond r then set_cols r else r) rows"

text \<open>\<^verbatim>\<open>DELETE FROM t WHERE cond\<close>: the rows left, and the number of rows affected.\<close>

definition sql_delete :: "('r \<Rightarrow> bool) \<Rightarrow> 'r list \<Rightarrow> 'r list" where
  "sql_delete cond rows = filter (\<lambda>r. \<not> cond r) rows"

definition RowsAffected :: "('r \<Rightarrow> bool) \<Rightarrow> 'r list \<Rightarrow> nat" where
  "RowsAffected cond rows = length (filter cond rows)"

section \<open>SQL statements of the repositories\<close>

text \<open>
  Each statement the repositories send is one definition on the store. The constraints of
  the schema are applied where a statement can violate them: the foreign keys, the CHECK
  constraints and the UNIQUE constraint on \<^verbatim>\<open>users.email\<close>. A failed statement raises the
  PostgreSQL error of the violated constraint and writes no row; an INSERT has drawn its
  id from the sequence by then. Primary keys are drawn from the sequences only, so no
  statement of the code can collide on one.
\<close>

definition INSERT_users ::
  "string \<Rightarrow> string \<Rightarrow> string \<Rightarrow> db \<Rightarrow> (go_error + repository_User) \<times> db" where
  "INSERT_users name email password_hash d =
     (let new_id = users_id_seq d + 1;
          d1 = d\<lparr>users_id_seq := new_id\<rparr>
      in if list_ex (\<lambda>u. u_Email u = email) (users d) then (Inl (PqError unique_violation), d1)
         else
           (let row = \<lparr>u_Id = new_id, u_Name = name, u_Email = email,
                       u_PasswordHash = password_hash,
                       u_CreatedAt = CURRENT_TIMESTAMP d, u_UpdatedAt = CURRENT_TIMESTAMP d\<rparr>
            in (Inr row, d1\<lparr>users := users d @ [row]\<rparr>)))"

definition INSERT_workout_plans ::
  "int \<Rightarrow> Time \<Rightarrow> WPStatus \<Rightarrow> string option \<Rightarrow> db
     \<Rightarrow> (go_error + repository_WorkoutPlan) \<times> db" where
  "INSERT_workout_plans user_id scheduled_date status comment d =
     (let new_id = workout_plans_id_seq d + 1;
          d1 = d\<lparr>workout_plans_id_seq := new_id\<rparr>
      in if \<not> check_status status then (Inl (PqError check_violation), d1)
         else if \<not> list_ex (\<lambda>u. u_Id u = user_id) (users d)
         then (Inl (PqError foreign_key_violation), d1)
         else
           (let row = \<lparr>wp_Id = new_id, wp_UserId = user_id, wp_Status = status,
                       wp_ScheduledDate = scheduled_date, wp_Comment = comment,
                       wp_CreatedAt = CURRENT_TIMESTAMP d, wp_UpdatedAt = CURRENT_TIMESTAMP d\<rparr>
            in (Inr row, d1\<lparr>workout_plans := workout_plans d @ [row]\<rparr>)))"

definition INSERT_exercise_plans ::
  "int \<Rightarrow> int \<Rightarrow> int \<Rightarrow> int \<Rightarrow> float32 \<Rightarrow> WeightUnit \<Rightarrow> db
     \<Rightarrow> (go_error + repository_ExercisePlan) \<times> db" where
  "INSERT_exercise_plans exercise_id workout_plan_id sets repetitions weights weight_unit d =
     (let new_id = exercise_plans_id_seq d + 1;
          d1 = d\<lparr>exercise_plans_id_seq := new_id\<rparr>
      in if \<not> check_weight_unit weight_unit then (Inl (PqError check_violation), d1)
         else if \<not> list_ex (\<lambda>e. ex_Id e = exercise_id) (exercises d)
                 \<or> \<not> list_ex (\<lambda>wp. wp_Id wp = workout_plan_id) (workout_plans d)
         then (Inl (PqError foreign_key_violation), d1)
         else
           (let row = \<lparr>ep_Id = new_id, ep_ExerciseId = exercise_id,
                       ep_WorkoutPlanId = workout_plan_id, ep_Sets = sets,
                       ep_Repetitions = repetitions, ep_Weights = weights,
                       ep_WeightUnit = weight_unit\<rparr>
            in (Inr row, d1\<lparr>exercise_plans := exercise_plans d @ [row]\<rparr>)))"

text \<open>
  \<^verbatim>\<open>UPDATE workout_plans SET status = COALESCE($1, status), scheduled_date =
  COALESCE($2, scheduled_date), comment = COALESCE($3, comment), updated_at =
  CURRENT_TIMESTAMP WHERE id = $4 RETURNING ...\<close>, read by \<^verbatim>\<open>QueryRowContext(...).Scan\<close>:
  the first returned row, \<^verbatim>\<open>sql.ErrNoRows\<close> when no row matched.
\<close>

definition UPDATE_workout_plans ::
  "WPStatus option \<Rightarrow> Time option \<Rightarrow> string option \<Rightarrow> int \<Rightarrow> db
     \<Rightarrow> (go_error + repository_WorkoutPlan) \<times> db" where
  "UPDATE_workout_plans p1 p2 p3 p4 d =
     (let rows = sql_update (\<lambda>wp. wp_Id wp = p4)
                   (\<lambda>wp. wp\<lparr>wp_Status := COALESCE p1 (wp_Status wp),
                             wp_ScheduledDate := COALESCE p2 (wp_ScheduledDate wp),
                             wp_Comment := COALESCE_nullable p3 (wp_Comment wp),
                             wp_UpdatedAt := CURRENT_TIMESTAMP d\<rparr>)
                   (workout_plans d)
      in if list_ex (\<lambda>wp. wp_Id wp = p4 \<and> \<not> check_status (wp_Status wp)) rows
         then (Inl (PqError check_violation), d)
         else (case find (\<lambda>wp. wp_Id wp = p4) rows of
                 None \<Rightarrow> (Inl ErrNoRows, d)
               | Some wp \<Rightarrow> (Inr wp, d\<lparr>workout_plans := rows\<rparr>)))"

text \<open>
  \<^verbatim>\<open>UPDATE exercise_plans SET sets = COALESCE($1, sets), repetitions = COALESCE($2,
  repetitions), weights = COALESCE($3, weights), weight_unit = COALESCE($4, weight_unit)
  WHERE id = $5 RETURNING ...\<close>.
\<close>

definition UPDATE_exercise_plans ::
  "int option \<Rightarrow> int option \<Rightarrow> float32 option \<Rightarrow> WeightUnit option \<Rightarrow> int \<Rightarrow> db
     \<Rightarrow> (go_error + repository_ExercisePlan) \<times> db" where
  "UPDATE_exercise_plans p1 p2 p3 p4 p5 d =
     (let rows = sql_update (\<lambda>ep. ep_Id ep = p5)
                   (\<lambda>ep. ep\<lparr>ep_Sets := COALESCE p1 (ep_Sets ep),
                             ep_Repetitions := COALESCE p2 (ep_Repetitions ep),
                             ep_Weights := COALESCE p3 (ep_Weights ep),
                             ep_WeightUnit := COALESCE p4 (ep_WeightUnit ep)\<rparr>)
                   (exercise_plans d)
      in if list_ex (\<lambda>ep. ep_Id ep = p5 \<and> \<not> check_weight_unit (ep_WeightUnit ep)) rows
         then (Inl (PqError check_violation), d)
         else (case find (\<lambda>ep. ep_Id ep = p5) rows of
                 None \<Rightarrow> (Inl ErrNoRows, d)
               | Some ep \<Rightarrow> (Inr ep, d\<lparr>exercise_plans := rows\<rparr>)))"

text \<open>\<^verbatim>\<open>DELETE FROM exercise_plans WHERE workout_plan_id = $1\<close>.\<close>

definition DELETE_exercise_plans_of_workout :: "int \<Rightarrow> db \<Rightarrow> (go_error + nat) \<times> db" where
  "DELETE_exercise_plans_of_workout p1 d =
     (Inr (RowsAffected (\<lambda>ep. ep_WorkoutPlanId ep = p1) (exercise_plans d)),
      d\<lparr>exercise_plans := sql_delete (\<lambda>ep. ep_WorkoutPlanId ep = p1) (exercise_plans d)\<rparr>)"

text \<open>
  \<^verbatim>\<open>DELETE FROM workout_plans WHERE id = $1\<close>. The foreign key of exercise_plans has no
  ON DELETE action: the statement fails while an exercise plan references a deleted row.
\<close>

definition DELETE_workout_plans :: "int \<Rightarrow> db \<Rightarrow> (go_error + nat) \<times> db" where
  "DELETE_workout_plans p1 d =
     (if list_ex (\<lambda>wp. wp_Id wp = p1) (workout_plans d)
         \<and> list_ex (\<lambda>ep. ep_WorkoutPlanId ep = p1) (exercise_plans d)
      then (Inl (PqError foreign_key_violation), d)
      else (Inr (RowsAffected (\<lambda>wp. wp_Id wp = p1) (workout_plans d)),
            d\<lparr>workout_plans := sql_delete (\<lambda>wp. wp_Id wp = p1) (workout_plans d)\<rparr>))"

section \<open>Calls into database/sql (repository helper)\<close>

text \<open>
  \<^verbatim>\<open>row.Scan\<close> after \<^verbatim>\<open>QueryRowContext\<close> of a SELECT: the error of the query if the driver
  could not run it, \<^verbatim>\<open>sql.ErrNoRows\<close> if it selected nothing, the error of reading the row,
  or the row.
\<close>

definition Row_Scan_select :: "statement \<Rightarrow> 'r option \<Rightarrow> db \<Rightarrow> go_error + 'r" where
  "Row_Scan_select stmt selected d =
     (case driver d (Query stmt) of
        Some err \<Rightarrow> Inl err
      | None \<Rightarrow>
          (case selected of
             None \<Rightarrow> Inl ErrNoRows
           | Some row \<Rightarrow>
               (case driver d (Scan stmt) of
                  Some err \<Rightarrow> Inl err
                | None \<Rightarrow> Inr row)))"

text \<open>
  The same for an INSERT or UPDATE with a RETURNING clause, which writes. A statement the
  driver could not run has no effect; one whose returned row could not be read has run.
\<close>

definition Row_Scan_returning ::
  "statement \<Rightarrow> (db \<Rightarrow> (go_error + 'r) \<times> db) \<Rightarrow> db \<Rightarrow> (go_error + 'r) \<times> db" where
  "Row_Scan_returning stmt run d =
     (case driver d (Query stmt) of
        Some err \<Rightarrow> (Inl err, d)
      | None \<Rightarrow>
          (case run d of
             (Inl err, d') \<Rightarrow> (Inl err, d')
           | (Inr row, d') \<Rightarrow>
               (case driver d (Scan stmt) of
                  Some err \<Rightarrow> (Inl err, d')
                | None \<Rightarrow> (Inr row, d'))))"

text \<open>\<^verbatim>\<open>tx.ExecContext\<close>: the result carries the number of rows affected.\<close>

definition Tx_ExecContext ::
  "statement \<Rightarrow> (db \<Rightarrow> (go_error + nat) \<times> db) \<Rightarrow> db \<Rightarrow> (go_error + nat) \<times> db" where
  "Tx_ExecContext stmt run d =
     (case driver d (Exec stmt) of
        Some err \<Rightarrow> (Inl err, d)
      | None \<Rightarrow> run d)"

text \<open>
  \<^verbatim>\<open>executeQueryRow\<close>: prepares the statement and returns the row to scan; the only error
  it returns itself is that of the preparation.
\<close>

definition executeQueryRow :: "statement \<Rightarrow> db \<Rightarrow> go_error option" where
  "executeQueryRow stmt d =
     (case driver d (PrepareContext stmt) of
        Some err \<Rightarrow> Some (Errorf_w err)
      | None \<Rightarrow> None)"

text \<open>\<^verbatim>\<open>executeQuery\<close>: prepares the statement and runs the query that returns rows.\<close>

definition executeQuery :: "statement \<Rightarrow> 'r list \<Rightarrow> db \<Rightarrow> go_error + 'r list" where
  "executeQuery stmt selected d =
     (case driver d (PrepareContext stmt) of
        Some err \<Rightarrow> Inl (Errorf_w err)
      | None \<Rightarrow>
          (case driver d (Query stmt) of
             Some err \<Rightarrow> Inl err
           | None \<Rightarrow> Inr selected))"

text \<open>
  The loop \<^verbatim>\<open>for rows.Next() { rows.Scan(...); list = append(list, row) }\<close> of the
  listings: it stops with the wrapped error of the first row that cannot be read.
\<close>

fun Rows_loop :: "statement \<Rightarrow> 'r list \<Rightarrow> 'r list \<Rightarrow> db \<Rightarrow> go_error + 'r list" where
  "Rows_loop stmt [] acc d = Inr acc"
| "Rows_loop stmt (row # rows) acc d =
     (case driver d (Scan stmt) of
        Some err \<Rightarrow> Inl (Errorf_w err)
      | None \<Rightarrow> Rows_loop stmt rows (acc @ [row]) d)"

subsection \<open>Transactions\<close>

text \<open>
  A rollback restores the tables of the snapshot taken at \<^verbatim>\<open>BeginTx\<close>; PostgreSQL
  sequences are not transactional and keep the values they reached.
\<close>

definition Rollback :: "db \<Rightarrow> db \<Rightarrow> db" where
  "Rollback snapshot d =
     snapshot\<lparr>users_id_seq := users_id_seq d,
              workout_plans_id_seq := workout_plans_id_seq d,
              exercise_plans_id_seq := exercise_plans_id_seq d\<rparr>"

text \<open>
  \<^verbatim>\<open>executeTransaction\<close>: begins a transaction and runs the function inside it. An error of
  the function is wrapped and the deferred rollback undoes its writes; otherwise the
  transaction is committed, and a commit that fails leaves nothing written. The value the
  Go closure stores in a captured variable is the \<open>Inr\<close> result here.
\<close>

definition executeTransaction ::
  "(db \<Rightarrow> (go_error + 'a) \<times> db) \<Rightarrow> db \<Rightarrow> (go_error + 'a) \<times> db" where
  "executeTransaction txFunc d =
     (case driver d BeginTx of
        Some err \<Rightarrow> (Inl (Errorf_w err), d)
      | None \<Rightarrow>
          (case txFunc d of
             (Inl err, d') \<Rightarrow> (Inl (Errorf_w err), Rollback d d')
           | (Inr v, d') \<Rightarrow>
               (case driver d Commit of
                  Some err \<Rightarrow> (Inl (Errorf_w err), Rollback d d')
                | None \<Rightarrow> (Inr v, d'))))"

section \<open>Repositories (internal/repository)\<close>

subsection \<open>postgresUserRepository\<close>

definition UserRepo_CreateUser :: "UserCreate \<Rightarrow> db \<Rightarrow> (go_error + repository_User) \<times> db" where
  "UserRepo_CreateUser data d =
     (case executeQueryRow CreateUser_insert d of
        Some err \<Rightarrow> (Inl (Errorf_w err), d)
      | None \<Rightarrow>
          (case Row_Scan_returning CreateUser_insert
                  (INSERT_users (uc_Name data) (uc_Email data) (uc_PasswordHash data)) d of
             (Inl err, d') \<Rightarrow>
               (case errors_As_pq_Error err of
                  Some code \<Rightarrow>
                    if code = unique_violation then (Inl (Errorf_w ErrAlreadyExists), d')
                    else (Inl (Errorf_w err), d')
                | None \<Rightarrow> (Inl (Errorf_w err), d'))
           | (Inr newUser, d') \<Rightarrow> (Inr newUser, d')))"

definition UserRepo_GetUserByEmail :: "string \<Rightarrow> db \<Rightarrow> go_error + repository_User" where
  "UserRepo_GetUserByEmail email d =
     (case executeQueryRow GetUserByEmail_select d of
        Some err \<Rightarrow> Inl (Errorf_w err)
      | None \<Rightarrow>
          (case Row_Scan_select GetUserByEmail_select
                  (find (\<lambda>u. u_Email u = email) (users d)) d of
             Inl err \<Rightarrow> if err = ErrNoRows then Inl ErrNotFound else Inl (Errorf_w err)
           | Inr user \<Rightarrow> Inr user))"

definition UserRepo_ExistUser :: "string \<Rightarrow> db \<Rightarrow> go_error + bool" where
  "UserRepo_ExistUser email d =
     (case executeQueryRow ExistUser_select d of
        Some err \<Rightarrow> Inl (Errorf_w err)
      | None \<Rightarrow>
          (case Row_Scan_select ExistUser_select
                  (map_option u_Id (find (\<lambda>u. u_Email u = email) (users d))) d of
             Inl err \<Rightarrow> if err = ErrNoRows then Inr False else Inl (Errorf_w err)
           | Inr ID \<Rightarrow> Inr True))"

subsection \<open>postgresWorkoutRepository\<close>

definition WPRepo_CreateWorkout ::
  "CreateWP \<Rightarrow> db \<Rightarrow> (go_error + repository_WorkoutPlan) \<times> db" where
  "WPRepo_CreateWorkout data0 d =
     (let status = PENDING;
          data = (if cwp_Comment data0 \<noteq> None \<and> the (cwp_Comment data0) = []
                  then data0\<lparr>cwp_Comment := None\<rparr> else data0)
      in case executeQueryRow CreateWorkout_insert d of
           Some err \<Rightarrow> (Inl (Errorf_w err), d)
         | None \<Rightarrow>
             (case Row_Scan_returning CreateWorkout_insert
                     (INSERT_workout_plans (cwp_UserId data) (cwp_ScheduledDate data) status
                        (cwp_Comment data)) d of
                (Inl err, d') \<Rightarrow> (Inl (Errorf_w err), d')
              | (Inr newWP, d') \<Rightarrow> (Inr newWP, d')))"

definition WPRepo_GetWorkoutById :: "int \<Rightarrow> db \<Rightarrow> go_error + repository_WorkoutPlan" where
  "WPRepo_GetWorkoutById wpId d =
     (case executeQueryRow GetWorkoutById_select d of
        Some err \<Rightarrow> Inl (Errorf_w err)
      | None \<Rightarrow>
          (case Row_Scan_select GetWorkoutById_select
                  (find (\<lambda>wp. wp_Id wp = wpId) (workout_plans d)) d of
             Inl err \<Rightarrow> if err = ErrNoRows then Inl ErrNotFound else Inl (Errorf_w err)
           | Inr workoutPlan \<Rightarrow> Inr workoutPlan))"

definition WPRepo_UpdateWorkout ::
  "UpdateWP \<Rightarrow> db \<Rightarrow> (go_error + repository_WorkoutPlan) \<times> db" where
  "WPRepo_UpdateWorkout data =
     executeTransaction (\<lambda>tx.
       case Row_Scan_select UpdateWorkout_select
              (map_option wp_Id (find (\<lambda>wp. wp_Id wp = uwp_Id data) (workout_plans tx))) tx of
         Inl err \<Rightarrow>
           if err = ErrNoRows then (Inl ErrNotFound, tx) else (Inl (Errorf_w err), tx)
       | Inr currentID \<Rightarrow>
           (case Row_Scan_returning UpdateWorkout_update
                   (UPDATE_workout_plans (Some (uwp_Status data)) (uwp_ScheduledDate data)
                      (uwp_Comment data) (uwp_Id data)) tx of
              (Inl err, tx') \<Rightarrow>
                if err = ErrNoRows then (Inl ErrNotFound, tx') else (Inl (Errorf_w err), tx')
            | (Inr updatedWP, tx') \<Rightarrow> (Inr updatedWP, tx')))"

definition WPRepo_DeleteWorkoutById :: "int \<Rightarrow> db \<Rightarrow> (go_error + unit) \<times> db" where
  "WPRepo_DeleteWorkoutById wpId =
     executeTransaction (\<lambda>tx.
       case Tx_ExecContext DeleteWorkoutById_delete_exercise_plans
              (DELETE_exercise_plans_of_workout wpId) tx of
         (Inl err, tx') \<Rightarrow> (Inl (Errorf_w err), tx')
       | (Inr _, tx') \<Rightarrow>
           (case Tx_ExecContext DeleteWorkoutById_delete_workout_plan
                   (DELETE_workout_plans wpId) tx' of
              (Inl err, tx'') \<Rightarrow> (Inl (Errorf_w err), tx'')
            | (Inr rowsAffected, tx'') \<Rightarrow>
                (case driver tx'' (Result_RowsAffected DeleteWorkoutById_delete_workout_plan) of
                   Some err \<Rightarrow> (Inl (Errorf_w err), tx'')
                 | None \<Rightarrow>
                     if rowsAffected = 0 then (Inl ErrNotFound, tx'') else (Inr (), tx''))))"

text \<open>
  The two listings order by \<^verbatim>\<open>scheduled_date\<close>; rows with equal dates come in the order
  of the table, one of the orders SQL permits.
\<close>

definition WPRepo_ListWorkoutsByStatus ::
  "int \<Rightarrow> WPStatus \<Rightarrow> bool \<Rightarrow> db \<Rightarrow> go_error + repository_WorkoutPlan list" where
  "WPRepo_ListWorkoutsByStatus userID status asc d =
     (let selected = filter (\<lambda>wp. wp_UserId wp = userID \<and> wp_Status wp = status)
                       (workout_plans d);
          ordered = (if asc then sort_key wp_ScheduledDate selected
                     else rev (sort_key wp_ScheduledDate selected))
      in case executeQuery ListWorkoutsByStatus_select ordered d of
           Inl err \<Rightarrow> Inl (Errorf_w err)
         | Inr rows \<Rightarrow>
             (case Rows_loop ListWorkoutsByStatus_select rows [] d of
                Inl err \<Rightarrow> Inl err
              | Inr wpList \<Rightarrow>
                  (case driver d (Rows_Err ListWorkoutsByStatus_select) of
                     Some err \<Rightarrow> Inl (Errorf_w err)
                   | None \<Rightarrow> Inr wpList)))"

definition WPRepo_ListUserWorkouts :: "int \<Rightarrow> db \<Rightarrow> go_error + repository_WorkoutPlan list" where
  "WPRepo_ListUserWorkouts userID d =
     (let ordered = sort_key wp_ScheduledDate
                      (filter (\<lambda>wp. wp_UserId wp = userID) (workout_plans d))
      in case executeQuery ListUserWorkouts_select ordered d of
           Inl err \<Rightarrow> Inl (Errorf_w err)
         | Inr rows \<Rightarrow>
             (case Rows_loop ListUserWorkouts_select rows [] d of
                Inl err \<Rightarrow> Inl err
              | Inr wpList \<Rightarrow>
                  (case driver d (Rows_Err ListUserWorkouts_select) of
                     Some err \<Rightarrow> Inl (Errorf_w err)
                   | None \<Rightarrow> Inr wpList)))"

subsection \<open>postgresEPRepository\<close>

definition EPRepo_CreateExercisePlan ::
  "CreateEP \<Rightarrow> int \<Rightarrow> db \<Rightarrow> (go_error + repository_ExercisePlan) \<times> db" where
  "EPRepo_CreateExercisePlan data workoutPlanId =
     executeTransaction (\<lambda>tx.
       case Row_Scan_select CreateExercisePlan_select
              (map_option wp_Id (find (\<lambda>wp. wp_Id wp = workoutPlanId) (workout_plans tx))) tx of
         Inl err \<Rightarrow>
           if err = ErrNoRows then (Inl ErrForeignKeyViolation, tx)
           else (Inl (Errorf_w err), tx)
       | Inr currentWorkoutPlanID \<Rightarrow>
           (case Row_Scan_returning CreateExercisePlan_insert
                   (INSERT_exercise_plans (cep_ExerciseId data) workoutPlanId (cep_Sets data)
                      (cep_Repetitions data) (cep_Weights data) (cep_WeightUnit data)) tx of
              (Inl err, tx') \<Rightarrow> (Inl (Errorf_w err), tx')
            | (Inr newExercisePlan, tx') \<Rightarrow> (Inr newExercisePlan, tx')))"

definition EPRepo_UpdateExercisePlan ::
  "UpdateEP \<Rightarrow> db \<Rightarrow> (go_error + repository_ExercisePlan) \<times> db" where
  "EPRepo_UpdateExercisePlan data =
     executeTransaction (\<lambda>tx.
       case Row_Scan_select UpdateExercisePlan_select
              (map_option ep_Id (find (\<lambda>ep. ep_Id ep = uep_Id data) (exercise_plans tx))) tx of
         Inl err \<Rightarrow>
           if err = ErrNoRows then (Inl ErrNotFound, tx) else (Inl (Errorf_w err), tx)
       | Inr currentID \<Rightarrow>
           (case Row_Scan_returning UpdateExercisePlan_update
                   (UPDATE_exercise_plans (uep_Sets data) (uep_Repetitions data)
                      (uep_Weights data) (uep_WeightUnit data) (uep_Id data)) tx of
              (Inl err, tx') \<Rightarrow>
                if err = ErrNoRows then (Inl ErrNotFound, tx') else (Inl (Errorf_w err), tx')
            | (Inr updatedEP, tx') \<Rightarrow> (Inr updatedEP, tx')))"

definition EPRepo_ListExercisePlans :: "int \<Rightarrow> db \<Rightarrow> go_error + repository_ExercisePlan list" where
  "EPRepo_ListExercisePlans workoutId d =
     (let selected = filter (\<lambda>ep. ep_WorkoutPlanId ep = workoutId) (exercise_plans d)
      in case executeQuery ListExercisePlans_select selected d of
           Inl err \<Rightarrow> Inl (Errorf_w err)
         | Inr rows \<Rightarrow>
             (case Rows_loop ListExercisePlans_select rows [] d of
                Inl err \<Rightarrow> Inl err
              | Inr epsList \<Rightarrow>
                  (case driver d (Rows_Err ListExercisePlans_select) of
                     Some err \<Rightarrow> Inl (Errorf_w err)
                   | None \<Rightarrow> Inr epsList)))"

section \<open>Services (internal/service)\<close>

subsection \<open>Service-level data\<close>

record service_User =
  su_Id :: int
  su_Name :: string
  su_Email :: string
  su_CreatedAt :: Time
  su_UpdatedAt :: Time

record UserSignup =
  us_Name :: string
  us_Email :: string
  us_Password :: string

record service_ExercisePlan =
  sep_Id :: int
  sep_ExerciseId :: int
  sep_WorkoutPlanId :: int
  sep_Sets :: int
  sep_Repetitions :: int
  sep_Weights :: float32
  sep_WeightUnit :: WeightUnit

record ExercisePlanCreate =
  epc_ExerciseId :: int
  epc_Sets :: int
  epc_Repetitions :: int
  epc_Weights :: float32
  epc_WeightUnit :: WeightUnit

record ExercisePlanUpdate =
  epu_Id :: int
  epu_Sets :: int
  epu_Repetitions :: int
  epu_Weights :: float32
  epu_WeightUnit :: WeightUnit

record service_WorkoutPlan =
  swp_Id :: int
  swp_UserId :: int
  swp_Status :: WPStatus
  swp_ScheduledDate :: Time
  swp_Comment :: "string option"
  swp_CreatedAt :: Time
  swp_UpdatedAt :: Time
  swp_ExercisePlans :: "service_ExercisePlan list"

record WorkoutPlanCreate =
  wpc_UserId :: int
  wpc_ScheduledDate :: "Time option"
  wpc_ExercisePlans :: "ExercisePlanCreate list"

record ProgressStatus =
  CompleteWorkouts :: int
  TotalWorkouts :: int

subsection \<open>Validation\<close>

definition ExercisePlanCreate_Validate :: "ExercisePlanCreate \<Rightarrow> go_error option" where
  "ExercisePlanCreate_Validate data =
     (if epc_Sets data \<le> 0 \<or> epc_Sets data > 999
      then Some (ValidationError INVALID_SETTING ''sets can not be zero or too large'')
      else if epc_Repetitions data < 0
      then Some (ValidationError INVALID_SETTING ''repetitions can not be negative'')
      else if epc_Weights data < 0
      then Some (ValidationError INVALID_SETTING ''weights can not be negative'')
      else if epc_WeightUnit data = KG \<or> epc_WeightUnit data = LBS \<or> epc_WeightUnit data = OTHER
      then None
      else Some (ValidationError INVALID_SETTING ''invalide weight unit''))"

definition ExercisePlanUpdate_Validate :: "ExercisePlanUpdate \<Rightarrow> go_error option" where
  "ExercisePlanUpdate_Validate data =
     (if epu_Sets data \<le> 0 \<or> epu_Sets data > 999
      then Some (ValidationError INVALID_SETTING ''sets can not be zero or too large'')
      else if epu_Repetitions data < 0
      then Some (ValidationError INVALID_SETTING ''repetitions can not be negative'')
      else if epu_Weights data < 0
      then Some (ValidationError INVALID_SETTING ''weights can not be negative'')
      else if epu_WeightUnit data = KG \<or> epu_WeightUnit data = LBS \<or> epu_WeightUnit data = OTHER
      then None
      else Some (ValidationError INVALID_SETTING ''invalide weight unit''))"

text \<open>A \<^verbatim>\<open>for ... range\<close> loop that returns the first error of a check.\<close>

fun first_error :: "('a \<Rightarrow> go_error option) \<Rightarrow> 'a list \<Rightarrow> go_error option" where
  "first_error check [] = None"
| "first_error check (x # xs) =
     (case check x of Some err \<Rightarrow> Some err | None \<Rightarrow> first_error check xs)"

definition WorkoutPlanCreate_Validate :: "WorkoutPlanCreate \<Rightarrow> go_error option" where
  "WorkoutPlanCreate_Validate data =
     (if wpc_UserId data \<le> 0
      then Some (ValidationError INVALID_ID ''not a valid user id'')
      else if wpc_ScheduledDate data = None
      then Some (ValidationError INVALID_DATE ''not valid scheduled date, date is not set'')
      else first_error ExercisePlanCreate_Validate (wpc_ExercisePlans data))"

text \<open>
  The e-mail pattern \<^verbatim>\<open>^[a-z0-9._%+\-]+@[a-z0-9.\-]+\.[a-z]{2,8}$\<close>. Neither character
  class contains \<^verbatim>\<open>@\<close>, so the local part ends at the first \<^verbatim>\<open>@\<close>; the last group has no
  dot, so it is what follows the last dot of the rest.
\<close>

definition is_lower :: "char \<Rightarrow> bool" where
  "is_lower c \<longleftrightarrow> 97 \<le> (of_char c :: nat) \<and> (of_char c :: nat) \<le> 122"

definition is_digit :: "char \<Rightarrow> bool" where
  "is_digit c \<longleftrightarrow> 48 \<le> (of_char c :: nat) \<and> (of_char c :: nat) \<le> 57"

definition local_class :: "char \<Rightarrow> bool" where
  "local_class c \<longleftrightarrow> is_lower c \<or> is_digit c \<or> c \<in> set ''._%+-''"

definition domain_class :: "char \<Rightarrow> bool" where
  "domain_class c \<longleftrightarrow> is_lower c \<or> is_digit c \<or> c \<in> set ''.-''"

definition emailRegex_MatchString :: "string \<Rightarrow> bool" where
  "emailRegex_MatchString s =
     (let local_part = takeWhile (\<lambda>c. c \<noteq> CHR ''@'') s;
          rest = dropWhile (\<lambda>c. c \<noteq> CHR ''@'') s
      in case rest of
           [] \<Rightarrow> False
         | c_at # domain_part \<Rightarrow>
             (let tld = rev (takeWhile (\<lambda>c. c \<noteq> CHR ''.'') (rev domain_part));
                  host_dot = rev (dropWhile (\<lambda>c. c \<noteq> CHR ''.'') (rev domain_part))
              in local_part \<noteq> [] \<and> list_all local_class local_part
                 \<and> host_dot \<noteq> [] \<and> butlast host_dot \<noteq> []
                 \<and> list_all domain_class (butlast host_dot)
                 \<and> 2 \<le> length tld \<and> length tld \<le> 8 \<and> list_all is_lower tld))"

definition UserSignup_Validate :: "UserSignup \<Rightarrow> go_error option" where
  "UserSignup_Validate data =
     (if length (us_Name data) < 1 \<or> length (us_Name data) > 100
      then Some (ValidationError INVALID_NAME ''Set the name length between 1 and 100'')
      else if \<not> emailRegex_MatchString (us_Email data)
      then Some (ValidationError INVALID_EMAIL ''The email cannot match the format'')
      else if length (us_Password data) < 8
      then Some (ValidationError INVALID_PASSWORD
                   ''The password must be at least 8 characters long'')
      else None)"

subsection \<open>UserService\<close>

definition toServiceUser :: "repository_User \<Rightarrow> service_User" where
  "toServiceUser ru =
     \<lparr>su_Id = u_Id ru, su_Name = u_Name ru, su_Email = u_Email ru,
      su_CreatedAt = u_CreatedAt ru, su_UpdatedAt = u_UpdatedAt ru\<rparr>"

text \<open>
  The password hasher (\<^verbatim>\<open>encrypt.HashHelperInterface\<close>, bcrypt) is a parameter of the
  service: any function from a password to a hash or an error.
\<close>

definition UserService_SignupUser ::
  "(string \<Rightarrow> go_error + string) \<Rightarrow> UserSignup \<Rightarrow> db \<Rightarrow> (go_error + service_User) \<times> db" where
  "UserService_SignupUser HashPassword input d =
     (case UserSignup_Validate input of
        Some err \<Rightarrow> (Inl (Errorf_w err), d)
      | None \<Rightarrow>
          (case UserRepo_ExistUser (us_Email input) d of
             Inl err \<Rightarrow> (Inl (Errorf_w err), d)
           | Inr exist \<Rightarrow>
               if exist
               then (Inl (ValidationError INVALID_EMAIL ''email have already registered''), d)
               else
                 (case HashPassword (us_Password input) of
                    Inl err \<Rightarrow> (Inl (Errorf_w err), d)
                  | Inr hashPS \<Rightarrow>
                      (case UserRepo_CreateUser
                              \<lparr>uc_Name = us_Name input, uc_Email = us_Email input,
                               uc_PasswordHash = hashPS\<rparr> d of
                         (Inl err, d') \<Rightarrow> (Inl (Errorf_w err), d')
                       | (Inr createdUser, d') \<Rightarrow> (Inr (toServiceUser createdUser), d')))))"

subsection \<open>WorkoutService\<close>

definition toServiceEP :: "repository_ExercisePlan \<Rightarrow> service_ExercisePlan" where
  "toServiceEP ep =
     \<lparr>sep_Id = ep_Id ep, sep_ExerciseId = ep_ExerciseId ep,
      sep_WorkoutPlanId = ep_WorkoutPlanId ep, sep_Sets = ep_Sets ep,
      sep_Repetitions = ep_Repetitions ep, sep_Weights = ep_Weights ep,
      sep_WeightUnit = ep_WeightUnit ep\<rparr>"

definition toServiceWP ::
  "repository_WorkoutPlan \<Rightarrow> repository_ExercisePlan list \<Rightarrow> service_WorkoutPlan" where
  "toServiceWP wp eps =
     \<lparr>swp_Id = wp_Id wp, swp_UserId = wp_UserId wp, swp_Status = wp_Status wp,
      swp_ScheduledDate = wp_ScheduledDate wp, swp_Comment = wp_Comment wp,
      swp_CreatedAt = wp_CreatedAt wp, swp_UpdatedAt = wp_UpdatedAt wp,
      swp_ExercisePlans = map toServiceEP eps\<rparr>"

text \<open>The loop of both listings: the exercise plans of every workout plan are fetched.\<close>

fun ListWorkouts_loop ::
  "repository_WorkoutPlan list \<Rightarrow> service_WorkoutPlan list \<Rightarrow> db
     \<Rightarrow> go_error + service_WorkoutPlan list" where
  "ListWorkouts_loop [] result d = Inr result"
| "ListWorkouts_loop (wp # wpList) result d =
     (case EPRepo_ListExercisePlans (wp_Id wp) d of
        Inl err \<Rightarrow> Inl (Errorf_w err)
      | Inr epList \<Rightarrow> ListWorkouts_loop wpList (result @ [toServiceWP wp epList]) d)"

definition WorkoutService_ListWorkoutsByStatus ::
  "int \<Rightarrow> WPStatus \<Rightarrow> bool \<Rightarrow> db \<Rightarrow> go_error + service_WorkoutPlan list" where
  "WorkoutService_ListWorkoutsByStatus userId status asc d =
     (case WPRepo_ListWorkoutsByStatus userId status asc d of
        Inl err \<Rightarrow> Inl (Errorf_w err)
      | Inr wpList \<Rightarrow> ListWorkouts_loop wpList [] d)"

definition WorkoutService_ListWorkouts :: "int \<Rightarrow> db \<Rightarrow> go_error + service_WorkoutPlan list" where
  "WorkoutService_ListWorkouts userId d =
     (case WPRepo_ListUserWorkouts userId d of
        Inl err \<Rightarrow> Inl (Errorf_w err)
      | Inr wpList \<Rightarrow> ListWorkouts_loop wpList [] d)"

text \<open>The loop of \<^verbatim>\<open>CreateWorkout\<close>: one exercise plan is inserted per entry, in order.\<close>

fun CreateWorkout_loop ::
  "ExercisePlanCreate list \<Rightarrow> int \<Rightarrow> repository_ExercisePlan list \<Rightarrow> db
     \<Rightarrow> (go_error + repository_ExercisePlan list) \<times> db" where
  "CreateWorkout_loop [] workoutId exercisePlans d = (Inr exercisePlans, d)"
| "CreateWorkout_loop (ep # eps) workoutId exercisePlans d =
     (case EPRepo_CreateExercisePlan
             \<lparr>cep_ExerciseId = epc_ExerciseId ep, cep_Sets = epc_Sets ep,
              cep_Repetitions = epc_Repetitions ep, cep_Weights = epc_Weights ep,
              cep_WeightUnit = epc_WeightUnit ep\<rparr> workoutId d of
        (Inl err, d') \<Rightarrow> (Inl (Errorf_w err), d')
      | (Inr exercisePlan, d') \<Rightarrow>
          CreateWorkout_loop eps workoutId (exercisePlans @ [exercisePlan]) d')"

definition WorkoutService_CreateWorkout ::
  "WorkoutPlanCreate \<Rightarrow> db \<Rightarrow> (go_error + service_WorkoutPlan) \<times> db" where
  "WorkoutService_CreateWorkout data d =
     (case WorkoutPlanCreate_Validate data of
        Some err \<Rightarrow> (Inl (Errorf_w err), d)
      | None \<Rightarrow>
          (case first_error ExercisePlanCreate_Validate (wpc_ExercisePlans data) of
             Some err \<Rightarrow> (Inl (Errorf_w err), d)
           | None \<Rightarrow>
               (case WPRepo_CreateWorkout
                       \<lparr>cwp_UserId = wpc_UserId data,
                        cwp_ScheduledDate = the (wpc_ScheduledDate data),
                        cwp_Comment = None\<rparr> d of
                  (Inl err, d') \<Rightarrow> (Inl (Errorf_w err), d')
                | (Inr workout, d') \<Rightarrow>
                    (case CreateWorkout_loop (wpc_ExercisePlans data) (wp_Id workout) [] d' of
                       (Inl err, d'') \<Rightarrow> (Inl err, d'')
                     | (Inr exercisePlans, d'') \<Rightarrow>
                         (Inr (toServiceWP workout exercisePlans), d'')))))"

definition WorkoutService_GetWorkoutById :: "int \<Rightarrow> db \<Rightarrow> go_error + service_WorkoutPlan" where
  "WorkoutService_GetWorkoutById wpId d =
     (case WPRepo_GetWorkoutById wpId d of
        Inl err \<Rightarrow> Inl (Errorf_w err)
      | Inr workoutPlan \<Rightarrow>
          (case EPRepo_ListExercisePlans (wp_Id workoutPlan) d of
             Inl err \<Rightarrow> Inl (Errorf_w err)
           | Inr exercisePlans \<Rightarrow> Inr (toServiceWP workoutPlan exercisePlans)))"

definition WorkoutService_CompleteWorkout ::
  "int \<Rightarrow> string option \<Rightarrow> db \<Rightarrow> (go_error + unit) \<times> db" where
  "WorkoutService_CompleteWorkout wpId comment d =
     (case WPRepo_UpdateWorkout
             \<lparr>uwp_Id = wpId, uwp_Status = COMPLETED, uwp_ScheduledDate = None,
              uwp_Comment = comment\<rparr> d of
        (Inl err, d') \<Rightarrow> (Inl (Errorf_w err), d')
      | (Inr _, d') \<Rightarrow> (Inr (), d'))"

definition WorkoutService_ScheduleWorkout ::
  "int \<Rightarrow> Time option \<Rightarrow> db \<Rightarrow> (go_error + service_WorkoutPlan) \<times> db" where
  "WorkoutService_ScheduleWorkout wpId scheduledDate d =
     (case WPRepo_UpdateWorkout
             \<lparr>uwp_Id = wpId, uwp_Status = PENDING, uwp_ScheduledDate = scheduledDate,
              uwp_Comment = None\<rparr> d of
        (Inl err, d') \<Rightarrow> (Inl (Errorf_w err), d')
      | (Inr workout, d') \<Rightarrow>
          (case EPRepo_ListExercisePlans (wp_Id workout) d' of
             Inl err \<Rightarrow> (Inl (Errorf_w err), d')
           | Inr exercisePlans \<Rightarrow> (Inr (toServiceWP workout exercisePlans), d')))"

text \<open>
  The loop of \<^verbatim>\<open>UpdateExercisePlans\<close>: every entry is validated, then written with all four
  of its values passed by address (none of the four parameters is ever NULL). Each write is
  a transaction of its own, so the writes before a failing entry stay.
\<close>

fun UpdateExercisePlans_loop ::
  "ExercisePlanUpdate list \<Rightarrow> repository_ExercisePlan list \<Rightarrow> db
     \<Rightarrow> (go_error + repository_ExercisePlan list) \<times> db" where
  "UpdateExercisePlans_loop [] exercisePlans d = (Inr exercisePlans, d)"
| "UpdateExercisePlans_loop (ep # epsUpdate) exercisePlans d =
     (case ExercisePlanUpdate_Validate ep of
        Some err \<Rightarrow> (Inl (Errorf_w err), d)
      | None \<Rightarrow>
          (case EPRepo_UpdateExercisePlan
                  \<lparr>uep_Id = epu_Id ep, uep_Sets = Some (epu_Sets ep),
                   uep_Repetitions = Some (epu_Repetitions ep),
                   uep_Weights = Some (epu_Weights ep),
                   uep_WeightUnit = Some (epu_WeightUnit ep)\<rparr> d of
             (Inl err, d') \<Rightarrow> (Inl (Errorf_w err), d')
           | (Inr exercisePlan, d') \<Rightarrow>
               UpdateExercisePlans_loop epsUpdate (exercisePlans @ [exercisePlan]) d'))"

definition WorkoutService_UpdateExercisePlans ::
  "int \<Rightarrow> ExercisePlanUpdate list \<Rightarrow> db \<Rightarrow> (go_error + service_WorkoutPlan) \<times> db" where
  "WorkoutService_UpdateExercisePlans workoutId epsUpdate d =
     (case WPRepo_GetWorkoutById workoutId d of
        Inl err \<Rightarrow> (Inl (Errorf_w err), d)
      | Inr workoutPlan \<Rightarrow>
          (case UpdateExercisePlans_loop epsUpdate [] d of
             (Inl err, d') \<Rightarrow> (Inl err, d')
           | (Inr exercisePlans, d') \<Rightarrow> (Inr (toServiceWP workoutPlan exercisePlans), d')))"

definition WorkoutService_DeleteWorkoutById :: "int \<Rightarrow> db \<Rightarrow> (go_error + unit) \<times> db" where
  "WorkoutService_DeleteWorkoutById wpId d =
     (case WPRepo_DeleteWorkoutById wpId d of
        (Inl err, d') \<Rightarrow> (Inl (Errorf_w err), d')
      | (Inr _, d') \<Rightarrow> (Inr (), d'))"

subsection \<open>ReportService\<close>

definition ReportService_Progress :: "int \<Rightarrow> db \<Rightarrow> go_error + ProgressStatus" where
  "ReportService_Progress userID d =
     (case WPRepo_ListWorkoutsByStatus userID COMPLETED True d of
        Inl err \<Rightarrow> Inl (Errorf_w err)
      | Inr completed \<Rightarrow>
          (case WPRepo_ListUserWorkouts userID d of
             Inl err \<Rightarrow> Inl (Errorf_w err)
           | Inr all \<Rightarrow>
               Inr \<lparr>CompleteWorkouts = int (length completed),
                    TotalWorkouts = int (length all)\<rparr>))"

section \<open>Token service and cache (internal/util/auth, internal/cache)\<close>

text \<open>
  The Redis key space is a finite map from keys to values, together with the error, if
  any, that each command the code sends makes the client return. The time-to-live of a key
  is real time and is not modelled: a key is present from the moment it is saved.
\<close>

datatype redis_command = Redis_Set | Redis_Exists

record cache =
  entries :: "string \<rightharpoonup> string"
  redis :: "redis_command \<Rightarrow> go_error option"

definition RedisCache_SaveCache :: "string \<Rightarrow> string \<Rightarrow> cache \<Rightarrow> go_error option \<times> cache" where
  "RedisCache_SaveCache key val c =
     (case redis c Redis_Set of
        Some err \<Rightarrow> (Some (Errorf_w err), c)
      | None \<Rightarrow> (None, c\<lparr>entries := (entries c)(key \<mapsto> val)\<rparr>))"

definition RedisCache_ExistCache :: "string \<Rightarrow> cache \<Rightarrow> go_error + bool" where
  "RedisCache_ExistCache key c =
     (case redis c Redis_Exists of
        Some err \<Rightarrow> Inl (Errorf_w err)
      | None \<Rightarrow> Inr (entries c key \<noteq> None))"

abbreviation cachePrefix :: string where "cachePrefix \<equiv> ''jwtblacklist:''"

text \<open>
  \<^verbatim>\<open>Claims\<close>: the embedded \<^verbatim>\<open>Payload\<close> (its \<^verbatim>\<open>Id\<close> is a pointer) and the registered claims
  the code reads, the token id \<^verbatim>\<open>ID\<close> (JTI) and \<^verbatim>\<open>ExpiresAt\<close> (a pointer).
\<close>

record Claims =
  Payload_Id :: "int option"
  Payload_Name :: string
  Payload_Email :: string
  RegisteredClaims_ID :: string
  RegisteredClaims_ExpiresAt :: "Time option"

text \<open>
  \<^verbatim>\<open>TokenInterface\<close>, with the cache as the state of the blacklist. Signing and parsing
  belong to the JWT library: \<open>ParseToken\<close> is any function that accepts a token string with
  its claims or rejects it.
\<close>

record 'c TokenInterface =
  GenerateToken :: "Claims \<Rightarrow> go_error + string"
  ParseToken :: "string \<Rightarrow> go_error + Claims"
  BlacklistToken :: "string \<Rightarrow> Time \<Rightarrow> 'c \<Rightarrow> go_error option \<times> 'c"
  CheckBlacklist :: "string \<Rightarrow> 'c \<Rightarrow> go_error + bool"

definition JWTService_BlacklistToken :: "string \<Rightarrow> Time \<Rightarrow> cache \<Rightarrow> go_error option \<times> cache" where
  "JWTService_BlacklistToken jti expirationTime c =
     (let key = cachePrefix @ jti
      in case RedisCache_SaveCache key jti c of
           (Some err, c') \<Rightarrow> (Some (Errorf_w err), c')
         | (None, c') \<Rightarrow> (None, c'))"

definition JWTService_CheckBlacklist :: "string \<Rightarrow> cache \<Rightarrow> go_error + bool" where
  "JWTService_CheckBlacklist jti c =
     (let key = cachePrefix @ jti
      in case RedisCache_ExistCache key c of
           Inl err \<Rightarrow> Inl (Errorf_w err)
         | Inr found \<Rightarrow> if \<not> found then Inr False else Inr True)"

definition NewJWTService ::
  "(Claims \<Rightarrow> go_error + string) \<Rightarrow> (string \<Rightarrow> go_error + Claims) \<Rightarrow> cache TokenInterface" where
  "NewJWTService sign parse =
     \<lparr>GenerateToken = sign, ParseToken = parse,
      BlacklistToken = JWTService_BlacklistToken,
      CheckBlacklist = JWTService_CheckBlacklist\<rparr>"

section \<open>HTTP layer (internal/util/helper, internal/middleware, internal/handler)\<close>

subsection \<open>Requests, responses, context\<close>

record UserInfo =
  ui_Id :: int
  ui_Email :: string
  ui_Name :: string

record JTIInfo =
  jti_Id :: string
  jti_ExpirationTime :: Time

record request_context =
  UserContextKey :: "UserInfo option"
  JTIContextKey :: "JTIInfo option"

definition GetUserInfoFromContext :: "request_context \<Rightarrow> UserInfo option" where
  "GetUserInfoFromContext ctx = UserContextKey ctx"

definition SetUserInfoToContext :: "request_context \<Rightarrow> UserInfo \<Rightarrow> request_context" where
  "SetUserInfoToContext ctx user = ctx\<lparr>UserContextKey := Some user\<rparr>"

definition SetJTIToContext :: "request_context \<Rightarrow> JTIInfo \<Rightarrow> request_context" where
  "SetJTIToContext ctx jti = ctx\<lparr>JTIContextKey := Some jti\<rparr>"

text \<open>
  A request, as far as the handlers read it: the Authorization header, the path value
  \<^verbatim>\<open>workoutId\<close> (empty when unset), the context, and the body as the JSON decoder leaves
  it (\<open>None\<close> when decoding fails).
\<close>

record 'b request =
  Header_Authorization :: string
  PathValue_workoutId :: string
  Context :: request_context
  Body :: "'b option"

text \<open>
  What a handler does to the response writer: a success response with its status (the
  workout plan it carries is kept as the service returned it, the conversion to the API
  type copies it field by field), an error response with its status and error code, or a
  runtime panic (a nil pointer dereference) that leaves the handler.
\<close>

datatype payload = NoPayload | WorkoutPlanPayload service_WorkoutPlan

datatype outcome =
  SuccessResponse nat payload
  | ErrorResponse nat string
  | Panic

abbreviation StatusOK :: nat where "StatusOK \<equiv> 200"
abbreviation StatusCreated :: nat where "StatusCreated \<equiv> 201"
abbreviation StatusNoContent :: nat where "StatusNoContent \<equiv> 204"
abbreviation StatusBadRequest :: nat where "StatusBadRequest \<equiv> 400"
abbreviation StatusUnauthorized :: nat where "StatusUnauthorized \<equiv> 401"
abbreviation StatusForbidden :: nat where "StatusForbidden \<equiv> 403"
abbreviation StatusNotFound :: nat where "StatusNotFound \<equiv> 404"
abbreviation StatusConflict :: nat where "StatusConflict \<equiv> 409"
abbreviation StatusInternalServerError :: nat where "StatusInternalServerError \<equiv> 500"

definition SendErrorResponse :: "go_error \<Rightarrow> outcome" where
  "SendErrorResponse err =
     (case errors_As_ValidationError err of
        Some (field, message) \<Rightarrow> ErrorResponse StatusBadRequest (ValidationField_string field)
      | None \<Rightarrow>
          if errors_Is err ErrNotFound then ErrorResponse StatusNotFound NOT_FOUND
          else if errors_Is err ErrAlreadyExists then ErrorResponse StatusConflict ALREADY_EXISTS
          else if errors_Is err ErrUnauthorized then ErrorResponse StatusUnauthorized UNAUTHORIZED
          else if errors_Is err ErrForbidden then ErrorResponse StatusForbidden FORBIDDEN
          else if errors_Is err ErrInvalidInput then ErrorResponse StatusBadRequest BAD_REQUEST
          else ErrorResponse StatusInternalServerError INTERNAL_ERROR)"

subsection \<open>Library functions\<close>

text \<open>
  \<^verbatim>\<open>strconv.Atoi\<close>: an optional sign and decimal digits, within the 64-bit range of
  \<^verbatim>\<open>int\<close>; anything else is an error.
\<close>

fun digits_value :: "nat \<Rightarrow> string \<Rightarrow> nat option" where
  "digits_value acc [] = Some acc"
| "digits_value acc (c # cs) =
     (if is_digit c then digits_value (acc * 10 + (of_char c - 48)) cs else None)"

definition Atoi :: "string \<Rightarrow> int option" where
  "Atoi s =
     (let neg = (s \<noteq> [] \<and> hd s = CHR ''-'');
          ds = (if s \<noteq> [] \<and> (hd s = CHR ''-'' \<or> hd s = CHR ''+'') then tl s else s)
      in if ds = [] then None
         else (case digits_value 0 ds of
                 None \<Rightarrow> None
               | Some n \<Rightarrow>
                   if neg then (if n \<le> 2 ^ 63 then Some (- int n) else None)
                   else (if n < 2 ^ 63 then Some (int n) else None)))"

text \<open>\<^verbatim>\<open>strings.Split(s, " ")\<close>: the pieces between the separators, one more than separators.\<close>

fun strings_Split :: "string \<Rightarrow> char \<Rightarrow> string list" where
  "strings_Split [] sep = [[]]"
| "strings_Split (c # cs) sep =
     (if c = sep then [] # strings_Split cs sep
      else (case strings_Split cs sep of
              [] \<Rightarrow> [[c]]
            | p # ps \<Rightarrow> (c # p) # ps))"

text \<open>
  \<^verbatim>\<open>strings.ToLower\<close>, on the ASCII letters. A character outside ASCII is never mapped to
  a letter of \<^verbatim>\<open>bearer\<close>, the only word the result is compared with.
\<close>

definition strings_ToLower :: "string \<Rightarrow> string" where
  "strings_ToLower s =
     map (\<lambda>c. if 65 \<le> (of_char c :: nat) \<and> (of_char c :: nat) \<le> 90
              then char_of ((of_char c :: nat) + 32) else c) s"

subsection \<open>JWTAuthMiddleware\<close>

definition JWTAuthMiddleware ::
  "'c TokenInterface \<Rightarrow> 'c \<Rightarrow> ('b request \<Rightarrow> 's \<Rightarrow> outcome \<times> 's) \<Rightarrow> 'b request \<Rightarrow> 's
     \<Rightarrow> outcome \<times> 's" where
  "JWTAuthMiddleware tokenService c next r s =
     (let authHeader = Header_Authorization r
      in if authHeader = [] then (SendErrorResponse ErrUnauthorized, s)
         else
           (let tokenParts = strings_Split authHeader (CHR '' '')
            in if length tokenParts \<noteq> 2 \<or> strings_ToLower (tokenParts ! 0) \<noteq> ''bearer''
               then (SendErrorResponse ErrUnauthorized, s)
               else
                 (let tokenString = tokenParts ! 1
                  in case ParseToken tokenService tokenString of
                       Inl err \<Rightarrow> (SendErrorResponse ErrUnauthorized, s)
                     | Inr claims \<Rightarrow>
                         (let blocked =
                                (if RegisteredClaims_ID claims \<noteq> []
                                 then (case CheckBlacklist tokenService
                                              (RegisteredClaims_ID claims) c of
                                         Inl err \<Rightarrow> Some (SendErrorResponse (Errorf_w err))
                                       | Inr isBlaclisted \<Rightarrow>
                                           if isBlaclisted
                                           then Some (SendErrorResponse ErrUnauthorized)
                                           else None)
                                 else Some (SendErrorResponse ErrUnauthorized))
                          in case blocked of
                               Some response \<Rightarrow> (response, s)
                             | None \<Rightarrow>
                                 (case Payload_Id claims of
                                    None \<Rightarrow> (Panic, s)
                                  | Some uid \<Rightarrow>
                                      (case RegisteredClaims_ExpiresAt claims of
                                         None \<Rightarrow> (Panic, s)
                                       | Some expiresAt \<Rightarrow>
                                           (let ctx = SetUserInfoToContext (Context r)
                                                        \<lparr>ui_Id = uid,
                                                         ui_Email = Payload_Email claims,
                                                         ui_Name = Payload_Name claims\<rparr>;
                                                ctx' = SetJTIToContext ctx
                                                        \<lparr>jti_Id = RegisteredClaims_ID claims,
                                                         jti_ExpirationTime = expiresAt\<rparr>
                                            in next (r\<lparr>Context := ctx'\<rparr>) s)))))))"

subsection \<open>Request bodies (pkg/api)\<close>

text \<open>
  Modelled from the spec: the generated package \<^verbatim>\<open>pkg/api\<close> (\<^verbatim>\<open>gen.go\<close>) is not among the
  sources. The spec says that update requests carry optional fields with pointer
  semantics; \<^verbatim>\<open>openapi.yaml\<close> marks no property of these schemas as required, and the
  handlers dereference each of them. An absent JSON property is a nil pointer, \<open>None\<close> here.
  Of the signup body only the password is a pointer.
\<close>

record api_CreateExercisePlan =
  acep_ExerciseId :: "int option"
  acep_Sets :: "int option"
  acep_Repetitions :: "int option"
  acep_Weights :: "float32 option"
  acep_WeightUnit :: "WeightUnit option"

record api_UpdateExercisePlan =
  auep_Id :: "int option"
  auep_Sets :: "int option"
  auep_Repetitions :: "int option"
  auep_Weights :: "float32 option"
  auep_WeightUnit :: "WeightUnit option"

record CreateWorkoutPlanJSONRequestBody =
  cwpb_ScheduledDate :: "Time option"
  cwpb_ExercisePlans :: "api_CreateExercisePlan list option"

record UpdateExercisePlansInWorkoutPlanJSONBody =
  uepb_ExercisePlans :: "api_UpdateExercisePlan list option"

record CompleteWorkoutPlanByIdJSONRequestBody =
  cb_Comment :: "string option"

record ScheduleWorkoutPlanByIdJSONBody =
  sb_ScheduledDate :: "Time option"

record SignupUserJSONRequestBody =
  sub_Name :: string
  sub_Email :: string
  sub_Password :: "string option"

subsection \<open>Service interfaces\<close>

text \<open>
  The handlers hold a service behind an interface. An implementation is a record of
  functions on some state; a function that only reads returns no state.
\<close>

record 's WorkoutServiceInterface =
  CreateWorkout :: "WorkoutPlanCreate \<Rightarrow> 's \<Rightarrow> (go_error + service_WorkoutPlan) \<times> 's"
  DeleteWorkoutById :: "int \<Rightarrow> 's \<Rightarrow> (go_error + unit) \<times> 's"
  GetWorkoutById :: "int \<Rightarrow> 's \<Rightarrow> go_error + service_WorkoutPlan"
  ListWorkouts :: "int \<Rightarrow> 's \<Rightarrow> go_error + service_WorkoutPlan list"
  ListWorkoutsByStatus :: "int \<Rightarrow> WPStatus \<Rightarrow> bool \<Rightarrow> 's \<Rightarrow> go_error + service_WorkoutPlan list"
  CompleteWorkout :: "int \<Rightarrow> string option \<Rightarrow> 's \<Rightarrow> (go_error + unit) \<times> 's"
  ScheduleWorkout :: "int \<Rightarrow> Time option \<Rightarrow> 's \<Rightarrow> (go_error + service_WorkoutPlan) \<times> 's"
  UpdateExercisePlans ::
    "int \<Rightarrow> ExercisePlanUpdate list \<Rightarrow> 's \<Rightarrow> (go_error + service_WorkoutPlan) \<times> 's"

definition NewWPService :: "db WorkoutServiceInterface" where
  "NewWPService =
     \<lparr>CreateWorkout = WorkoutService_CreateWorkout,
      DeleteWorkoutById = WorkoutService_DeleteWorkoutById,
      GetWorkoutById = WorkoutService_GetWorkoutById,
      ListWorkouts = WorkoutService_ListWorkouts,
      ListWorkoutsByStatus = WorkoutService_ListWorkoutsByStatus,
      CompleteWorkout = WorkoutService_CompleteWorkout,
      ScheduleWorkout = WorkoutService_ScheduleWorkout,
      UpdateExercisePlans = WorkoutService_UpdateExercisePlans\<rparr>"

record 's UserServiceInterface =
  SignupUser :: "UserSignup \<Rightarrow> 's \<Rightarrow> (go_error + service_User) \<times> 's"

definition NewUserService :: "(string \<Rightarrow> go_error + string) \<Rightarrow> db UserServiceInterface" where
  "NewUserService HashPassword = \<lparr>SignupUser = UserService_SignupUser HashPassword\<rparr>"

subsection \<open>WorkoutHandler\<close>

text \<open>
  The conversions to the service types dereference every field of the API value. \<open>None\<close>
  is the panic of dereferencing a nil pointer.
\<close>

definition toServiceCreateEP :: "api_CreateExercisePlan \<Rightarrow> ExercisePlanCreate option" where
  "toServiceCreateEP apiEP =
     (case acep_ExerciseId apiEP of None \<Rightarrow> None | Some exerciseId \<Rightarrow>
      case acep_Repetitions apiEP of None \<Rightarrow> None | Some repetitions \<Rightarrow>
      case acep_Sets apiEP of None \<Rightarrow> None | Some sets \<Rightarrow>
      case acep_Weights apiEP of None \<Rightarrow> None | Some weights \<Rightarrow>
      case acep_WeightUnit apiEP of None \<Rightarrow> None | Some weightUnit \<Rightarrow>
        Some \<lparr>epc_ExerciseId = exerciseId, epc_Sets = sets, epc_Repetitions = repetitions,
              epc_Weights = weights, epc_WeightUnit = weightUnit\<rparr>)"

definition toServiceUpdateEP :: "api_UpdateExercisePlan \<Rightarrow> ExercisePlanUpdate option" where
  "toServiceUpdateEP apiEP =
     (case auep_Id apiEP of None \<Rightarrow> None | Some epId \<Rightarrow>
      case auep_Sets apiEP of None \<Rightarrow> None | Some sets \<Rightarrow>
      case auep_Repetitions apiEP of None \<Rightarrow> None | Some repetitions \<Rightarrow>
      case auep_Weights apiEP of None \<Rightarrow> None | Some weights \<Rightarrow>
      case auep_WeightUnit apiEP of None \<Rightarrow> None | Some weightUnit \<Rightarrow>
        Some \<lparr>epu_Id = epId, epu_Sets = sets, epu_Repetitions = repetitions,
              epu_Weights = weights, epu_WeightUnit = weightUnit\<rparr>)"

text \<open>The conversion loop of a handler: it appends the converted entries, or panics.\<close>

fun convert_loop :: "('a \<Rightarrow> 'b option) \<Rightarrow> 'a list \<Rightarrow> 'b list \<Rightarrow> 'b list option" where
  "convert_loop conv [] acc = Some acc"
| "convert_loop conv (ep # eps) acc =
     (case conv ep of
        None \<Rightarrow> None
      | Some serviceEP \<Rightarrow> convert_loop conv eps (acc @ [serviceEP]))"

text \<open>
  \<^verbatim>\<open>doubleAuth\<close>: \<open>Inl\<close> is the error response it has sent (the handler returns at once),
  \<open>Inr\<close> the id of the fetched plan.
\<close>

definition doubleAuth :: "'s WorkoutServiceInterface \<Rightarrow> 'b request \<Rightarrow> 's \<Rightarrow> outcome + int" where
  "doubleAuth workoutService r s =
     (let path_id = PathValue_workoutId r
      in if path_id = []
         then Inl (SendErrorResponse (ValidationError INVALID_INPUT ''workout id not set in path''))
         else
           (case Atoi path_id of
              None \<Rightarrow> Inl (SendErrorResponse (ValidationError INVALID_ID ''workout id not valid''))
            | Some wpId \<Rightarrow>
                (case GetUserInfoFromContext (Context r) of
                   None \<Rightarrow> Inl (SendErrorResponse ErrUnauthorized)
                 | Some userInfo \<Rightarrow>
                     (case GetWorkoutById workoutService wpId s of
                        Inl err \<Rightarrow> Inl (SendErrorResponse ErrNotFound)
                      | Inr exsitingWP \<Rightarrow>
                          if swp_UserId exsitingWP \<noteq> ui_Id userInfo
                          then Inl (SendErrorResponse ErrForbidden)
                          else Inr (swp_Id exsitingWP)))))"

definition CreateWorkoutPlan ::
  "'s WorkoutServiceInterface \<Rightarrow> CreateWorkoutPlanJSONRequestBody request \<Rightarrow> 's
     \<Rightarrow> outcome \<times> 's" where
  "CreateWorkoutPlan h r s =
     (case Body r of
        None \<Rightarrow> (SendErrorResponse (ValidationError INVALID_INPUT ''invalid request body''), s)
      | Some req \<Rightarrow>
          (case GetUserInfoFromContext (Context r) of
             None \<Rightarrow> (SendErrorResponse ErrUnauthorized, s)
           | Some userInfo \<Rightarrow>
               (case cwpb_ExercisePlans req of
                  None \<Rightarrow> (Panic, s)
                | Some apiEPs \<Rightarrow>
                    (case convert_loop toServiceCreateEP apiEPs [] of
                       None \<Rightarrow> (Panic, s)
                     | Some createEPs \<Rightarrow>
                         (case CreateWorkout h
                                 \<lparr>wpc_UserId = ui_Id userInfo,
                                  wpc_ScheduledDate = cwpb_ScheduledDate req,
                                  wpc_ExercisePlans = createEPs\<rparr> s of
                            (Inl err, s') \<Rightarrow>
                              (if errors_As_ValidationError err \<noteq> None
                               then (SendErrorResponse err, s')
                               else (SendErrorResponse (Errorf_w err), s'))
                          | (Inr wp, s') \<Rightarrow>
                              (SuccessResponse StatusCreated (WorkoutPlanPayload wp), s'))))))"

definition GetWorkoutPlanById ::
  "'s WorkoutServiceInterface \<Rightarrow> 'b request \<Rightarrow> 's \<Rightarrow> outcome \<times> 's" where
  "GetWorkoutPlanById h r s =
     (case doubleAuth h r s of
        Inl response \<Rightarrow> (response, s)
      | Inr wpId \<Rightarrow>
          (case GetWorkoutById h wpId s of
             Inl err \<Rightarrow> (SendErrorResponse ErrNotFound, s)
           | Inr wp \<Rightarrow> (SuccessResponse StatusOK (WorkoutPlanPayload wp), s)))"

definition UpdateExercisePlansInWorkoutPlan ::
  "'s WorkoutServiceInterface \<Rightarrow> UpdateExercisePlansInWorkoutPlanJSONBody request \<Rightarrow> 's
     \<Rightarrow> outcome \<times> 's" where
  "UpdateExercisePlansInWorkoutPlan h r s =
     (case doubleAuth h r s of
        Inl response \<Rightarrow> (response, s)
      | Inr wpId \<Rightarrow>
          (case Body r of
             None \<Rightarrow>
               (SendErrorResponse (ValidationError INVALID_INPUT ''invalid request body''), s)
           | Some req \<Rightarrow>
               (case uepb_ExercisePlans req of
                  None \<Rightarrow> (Panic, s)
                | Some apiEPs \<Rightarrow>
                    (case convert_loop toServiceUpdateEP apiEPs [] of
                       None \<Rightarrow> (Panic, s)
                     | Some serviceUpdateEPs \<Rightarrow>
                         (case UpdateExercisePlans h wpId serviceUpdateEPs s of
                            (Inl err, s') \<Rightarrow>
                              (if errors_As_ValidationError err \<noteq> None
                               then (SendErrorResponse err, s')
                               else (SendErrorResponse (Errorf_w err), s'))
                          | (Inr updatedWP, s') \<Rightarrow>
                              (SuccessResponse StatusOK (WorkoutPlanPayload updatedWP), s'))))))"

definition CompleteWorkoutPlanById ::
  "'s WorkoutServiceInterface \<Rightarrow> CompleteWorkoutPlanByIdJSONRequestBody request \<Rightarrow> 's
     \<Rightarrow> outcome \<times> 's" where
  "CompleteWorkoutPlanById h r s =
     (case doubleAuth h r s of
        Inl response \<Rightarrow> (response, s)
      | Inr wpId \<Rightarrow>
          (case Body r of
             None \<Rightarrow>
               (SendErrorResponse (ValidationError INVALID_INPUT ''invalid request body''), s)
           | Some req \<Rightarrow>
               (case CompleteWorkout h wpId (cb_Comment req) s of
                  (Inl err, s') \<Rightarrow> (SendErrorResponse (Errorf_w err), s')
                | (Inr _, s') \<Rightarrow> (SuccessResponse StatusNoContent NoPayload, s'))))"

definition ScheduleWorkoutPlanById ::
  "'s WorkoutServiceInterface \<Rightarrow> ScheduleWorkoutPlanByIdJSONBody request \<Rightarrow> 's
     \<Rightarrow> outcome \<times> 's" where
  "ScheduleWorkoutPlanById h r s =
     (case doubleAuth h r s of
        Inl response \<Rightarrow> (response, s)
      | Inr wpId \<Rightarrow>
          (case Body r of
             None \<Rightarrow>
               (SendErrorResponse (ValidationError INVALID_INPUT ''invalid request body''), s)
           | Some req \<Rightarrow>
               (case ScheduleWorkout h wpId (sb_ScheduledDate req) s of
                  (Inl err, s') \<Rightarrow>
                    (if errors_As_ValidationError err \<noteq> None
                     then (SendErrorResponse err, s')
                     else (SendErrorResponse (Errorf_w err), s'))
                | (Inr updatedWP, s') \<Rightarrow>
                    (SuccessResponse StatusOK (WorkoutPlanPayload updatedWP), s'))))"

definition DeleteWoroutPlanById ::
  "'s WorkoutServiceInterface \<Rightarrow> 'b request \<Rightarrow> 's \<Rightarrow> outcome \<times> 's" where
  "DeleteWoroutPlanById h r s =
     (case doubleAuth h r s of
        Inl response \<Rightarrow> (response, s)
      | Inr wpId \<Rightarrow>
          (case DeleteWorkoutById h wpId s of
             (Inl err, s') \<Rightarrow> (SendErrorResponse (Errorf_w err), s')
           | (Inr _, s') \<Rightarrow> (SuccessResponse StatusNoContent NoPayload, s')))"

subsection \<open>UserHandler\<close>

definition UserHandler_SignupUser ::
  "'s UserServiceInterface \<Rightarrow> SignupUserJSONRequestBody request \<Rightarrow> 's \<Rightarrow> outcome \<times> 's" where
  "UserHandler_SignupUser h r s =
     (case Body r of
        None \<Rightarrow> (SendErrorResponse (ValidationError INVALID_INPUT ''invalid request body''), s)
      | Some req \<Rightarrow>
          (case sub_Password req of
             None \<Rightarrow> (Panic, s)
           | Some password \<Rightarrow>
               (case SignupUser h
                       \<lparr>us_Name = sub_Name req, us_Email = sub_Email req,
                        us_Password = password\<rparr> s of
                  (Inl err, s') \<Rightarrow>
                    (if errors_As_ValidationError err \<noteq> None
                     then (SendErrorResponse err, s')
                     else (SendErrorResponse Errorf_v, s'))
                | (Inr _, s') \<Rightarrow> (SuccessResponse StatusCreated NoPayload, s'))))"

subsection \<open>The five protected by-id operations\<close>

text \<open>
  The by-id handlers behind one name, for statements about all of them. Each takes the
  body of its own request type; the two handlers without a body ignore it.
\<close>

datatype by_id_operation =
  OpGet
  | OpUpdateExercisePlans "UpdateExercisePlansInWorkoutPlanJSONBody option"
  | OpComplete "CompleteWorkoutPlanByIdJSONRequestBody option"
  | OpSchedule "ScheduleWorkoutPlanByIdJSONBody option"
  | OpDelete

fun by_id_handler ::
  "'s WorkoutServiceInterface \<Rightarrow> by_id_operation \<Rightarrow> unit request \<Rightarrow> 's \<Rightarrow> outcome \<times> 's" where
  "by_id_handler h OpGet r s = GetWorkoutPlanById h r s"
| "by_id_handler h (OpUpdateExercisePlans b) r s =
     UpdateExercisePlansInWorkoutPlan h
       \<lparr>Header_Authorization = Header_Authorization r,
        PathValue_workoutId = PathValue_workoutId r, Context = Context r, Body = b\<rparr> s"
| "by_id_handler h (OpComplete b) r s =
     CompleteWorkoutPlanById h
       \<lparr>Header_Authorization = Header_Authorization r,
        PathValue_workoutId = PathValue_workoutId r, Context = Context r, Body = b\<rparr> s"
| "by_id_handler h (OpSchedule b) r s =
     ScheduleWorkoutPlanById h
       \<lparr>Header_Authorization = Header_Authorization r,
        PathValue_workoutId = PathValue_workoutId r, Context = Context r, Body = b\<rparr> s"
| "by_id_handler h OpDelete r s = DeleteWoroutPlanById h r s"

definition is_success :: "outcome \<Rightarrow> bool" where
  "is_success out = (case out of SuccessResponse code p \<Rightarrow> True | _ \<Rightarrow> False)"

section \<open>Notions used in the statements\<close>

text \<open>The driver fails at no call: the database answers.\<close>

definition driver_works :: "db \<Rightarrow> bool" where
  "driver_works d \<longleftrightarrow> (\<forall>call. driver d call = None)"

text \<open>The workout plans a user has in the store.\<close>

definition plans_of :: "int \<Rightarrow> db \<Rightarrow> repository_WorkoutPlan list" where
  "plans_of userID d = filter (\<lambda>wp. wp_UserId wp = userID) (workout_plans d)"

text \<open>
  A small store for the concrete runs: two users, one exercise, one pending workout plan
  of the first user with one exercise plan, and a driver that does not fail.
\<close>

definition example_db :: db where
  "example_db =
     \<lparr>users = [\<lparr>u_Id = 1, u_Name = ''Jane'', u_Email = ''jane@example.com'',
                 u_PasswordHash = ''h1'', u_CreatedAt = 10, u_UpdatedAt = 10\<rparr>,
               \<lparr>u_Id = 2, u_Name = ''Bruce'', u_Email = ''bruce@example.com'',
                 u_PasswordHash = ''h2'', u_CreatedAt = 20, u_UpdatedAt = 20\<rparr>],
      exercises = [\<lparr>ex_Id = 1, ex_Name = ''Push up'', ex_Description = ''easy'',
                     ex_MuscleGroup = ''chest''\<rparr>],
      workout_plans = [\<lparr>wp_Id = 1, wp_UserId = 1, wp_Status = PENDING,
                         wp_ScheduledDate = 100, wp_Comment = None,
                         wp_CreatedAt = 30, wp_UpdatedAt = 30\<rparr>],
      exercise_plans = [\<lparr>ep_Id = 1, ep_ExerciseId = 1, ep_WorkoutPlanId = 1, ep_Sets = 3,
                          ep_Repetitions = 10, ep_Weights = 50, ep_WeightUnit = KG\<rparr>],
      users_id_seq = 2, workout_plans_id_seq = 1, exercise_plans_id_seq = 1,
      CURRENT_TIMESTAMP = 1000, driver = (\<lambda>call. None)\<rparr>"

definition example_request :: "int \<Rightarrow> string \<Rightarrow> unit request" where
  "example_request uid path =
     \<lparr>Header_Authorization = [], PathValue_workoutId = path,
      Context = \<lparr>UserContextKey = Some \<lparr>ui_Id = uid, ui_Email = [], ui_Name = []\<rparr>,
                 JTIContextKey = None\<rparr>,
      Body = None\<rparr>"

text \<open>The same store with five workout plans, of three statuses and two owners.\<close>

definition progress_db :: db where
  "progress_db =
     example_db\<lparr>workout_plans :=
       [\<lparr>wp_Id = 1, wp_UserId = 1, wp_Status = COMPLETED, wp_ScheduledDate = 100,
          wp_Comment = Some ''done'', wp_CreatedAt = 30, wp_UpdatedAt = 40\<rparr>,
        \<lparr>wp_Id = 2, wp_UserId = 2, wp_Status = COMPLETED, wp_ScheduledDate = 110,
          wp_Comment = None, wp_CreatedAt = 31, wp_UpdatedAt = 41\<rparr>,
        \<lparr>wp_Id = 3, wp_UserId = 1, wp_Status = PENDING, wp_ScheduledDate = 90,
          wp_Comment = None, wp_CreatedAt = 32, wp_UpdatedAt = 32\<rparr>,
        \<lparr>wp_Id = 4, wp_UserId = 1, wp_Status = COMPLETED, wp_ScheduledDate = 95,
          wp_Comment = None, wp_CreatedAt = 33, wp_UpdatedAt = 43\<rparr>,
        \<lparr>wp_Id = 5, wp_UserId = 1, wp_Status = MISSED, wp_ScheduledDate = 80,
          wp_Comment = None, wp_CreatedAt = 34, wp_UpdatedAt = 34\<rparr>]\<rparr>"

text \<open>The row that \<^verbatim>\<open>UPDATE workout_plans\<close> writes over a stored row.\<close>

definition updated_workout_plan ::
  "UpdateWP \<Rightarrow> Time \<Rightarrow> repository_WorkoutPlan \<Rightarrow> repository_WorkoutPlan" where
  "updated_workout_plan data now old =
     old\<lparr>wp_Status := uwp_Status data,
         wp_ScheduledDate := (case uwp_ScheduledDate data of None \<Rightarrow> wp_ScheduledDate old | Some t \<Rightarrow> t),
         wp_Comment := (case uwp_Comment data of None \<Rightarrow> wp_Comment old | Some c \<Rightarrow> Some c),
         wp_UpdatedAt := now\<rparr>"

section \<open>The repositories on a store whose driver works\<close>

lemma driver_works_None [simp]: "driver_works d \<Longrightarrow> driver d call = None"
  by (simp add: driver_works_def)

lemma example_db_works: "driver_works example_db"
  by (simp add: driver_works_def example_db_def)

lemma Rows_loop_ok: "driver d (Scan stmt) = None \<Longrightarrow> Rows_loop stmt rows acc d = Inr (acc @ rows)"
  by (induction rows arbitrary: acc) simp_all

lemma Rows_loop_Inr: "Rows_loop stmt rows acc d = Inr result \<Longrightarrow> result = acc @ rows"
proof (induction rows arbitrary: acc)
  case Nil
  then show ?case by simp
next
  case (Cons row rows)
  from Cons.prems have "Rows_loop stmt rows (acc @ [row]) d = Inr result"
    by (simp split: option.splits)
  from Cons.IH[OF this] show ?case by simp
qed

lemma find_None_list_ex: "find P xs = None \<longleftrightarrow> \<not> list_ex P xs"
  by (induction xs) auto

lemma find_Some_list_ex: "find P xs = Some x \<Longrightarrow> list_ex P xs"
  by (induction xs) (auto split: if_splits)

lemma list_ex_filter_length: "list_ex P xs \<longleftrightarrow> length (filter P xs) \<noteq> 0"
  by (induction xs) auto

lemma WPRepo_GetWorkoutById_ok:
  "driver_works d \<Longrightarrow>
   WPRepo_GetWorkoutById wpId d =
     (case find (\<lambda>wp. wp_Id wp = wpId) (workout_plans d) of
        None \<Rightarrow> Inl ErrNotFound
      | Some workoutPlan \<Rightarrow> Inr workoutPlan)"
  by (simp add: WPRepo_GetWorkoutById_def executeQueryRow_def Row_Scan_select_def
      split: option.splits)

lemma EPRepo_ListExercisePlans_ok:
  "driver_works d \<Longrightarrow>
   EPRepo_ListExercisePlans workoutId d =
     Inr (filter (\<lambda>ep. ep_WorkoutPlanId ep = workoutId) (exercise_plans d))"
  by (simp add: EPRepo_ListExercisePlans_def executeQuery_def Rows_loop_ok)

lemma WPRepo_ListWorkoutsByStatus_ok:
  "driver_works d \<Longrightarrow>
   WPRepo_ListWorkoutsByStatus userID status asc d =
     Inr (if asc
          then sort_key wp_ScheduledDate
                 (filter (\<lambda>wp. wp_UserId wp = userID \<and> wp_Status wp = status) (workout_plans d))
          else rev (sort_key wp_ScheduledDate
                 (filter (\<lambda>wp. wp_UserId wp = userID \<and> wp_Status wp = status) (workout_plans d))))"
  by (simp add: WPRepo_ListWorkoutsByStatus_def executeQuery_def Rows_loop_ok)

lemma WPRepo_ListUserWorkouts_ok:
  "driver_works d \<Longrightarrow>
   WPRepo_ListUserWorkouts userID d =
     Inr (sort_key wp_ScheduledDate (filter (\<lambda>wp. wp_UserId wp = userID) (workout_plans d)))"
  by (simp add: WPRepo_ListUserWorkouts_def executeQuery_def Rows_loop_ok)

lemma WPRepo_ListWorkoutsByStatus_Inr:
  "WPRepo_ListWorkoutsByStatus userID status asc d = Inr wpList \<Longrightarrow>
   length wpList =
     length (filter (\<lambda>wp. wp_UserId wp = userID \<and> wp_Status wp = status) (workout_plans d))"
  by (auto simp: WPRepo_ListWorkoutsByStatus_def executeQuery_def Let_def
      dest!: Rows_loop_Inr split: option.splits sum.splits if_splits)

lemma WPRepo_ListUserWorkouts_Inr:
  "WPRepo_ListUserWorkouts userID d = Inr wpList \<Longrightarrow>
   length wpList = length (filter (\<lambda>wp. wp_UserId wp = userID) (workout_plans d))"
  by (auto simp: WPRepo_ListUserWorkouts_def executeQuery_def Let_def
      dest!: Rows_loop_Inr split: option.splits sum.splits if_splits)

lemma WorkoutService_GetWorkoutById_ok:
  "driver_works d \<Longrightarrow>
   WorkoutService_GetWorkoutById wpId d =
     (case find (\<lambda>wp. wp_Id wp = wpId) (workout_plans d) of
        None \<Rightarrow> Inl (Errorf_w ErrNotFound)
      | Some workoutPlan \<Rightarrow>
          Inr (toServiceWP workoutPlan
                 (filter (\<lambda>ep. ep_WorkoutPlanId ep = wp_Id workoutPlan) (exercise_plans d))))"
  by (simp add: WorkoutService_GetWorkoutById_def WPRepo_GetWorkoutById_ok
      EPRepo_ListExercisePlans_ok split: option.splits)

section \<open>The ownership gate of the by-id handlers\<close>

lemma SendErrorResponse_simps:
  "SendErrorResponse ErrNotFound = ErrorResponse StatusNotFound NOT_FOUND"
  "SendErrorResponse ErrForbidden = ErrorResponse StatusForbidden FORBIDDEN"
  "SendErrorResponse ErrUnauthorized = ErrorResponse StatusUnauthorized UNAUTHORIZED"
  "SendErrorResponse (ValidationError f m) = ErrorResponse StatusBadRequest (ValidationField_string f)"
  by (simp_all add: SendErrorResponse_def)

lemma SendErrorResponse_not_success: "\<not> is_success (SendErrorResponse err)"
  by (simp add: SendErrorResponse_def is_success_def split: option.splits prod.splits)

lemma doubleAuth_Inl_not_success: "doubleAuth h r s = Inl response \<Longrightarrow> \<not> is_success response"
  by (auto simp: doubleAuth_def Let_def SendErrorResponse_not_success
      split: if_splits option.splits sum.splits)

lemma doubleAuth_Inr:
  "doubleAuth h r s = Inr i \<Longrightarrow>
     \<exists>wpId userInfo wp. Atoi (PathValue_workoutId r) = Some wpId
       \<and> GetUserInfoFromContext (Context r) = Some userInfo
       \<and> GetWorkoutById h wpId s = Inr wp \<and> swp_UserId wp = ui_Id userInfo"
  by (auto simp: doubleAuth_def Let_def split: if_splits option.splits sum.splits)

lemma Atoi_Nil: "Atoi [] = None"
  by (simp add: Atoi_def)

lemma doubleAuth_not_found:
  "Atoi (PathValue_workoutId r) = Some wpId \<Longrightarrow>
   GetUserInfoFromContext (Context r) = Some userInfo \<Longrightarrow>
   \<forall>wp. GetWorkoutById h wpId s \<noteq> Inr wp \<Longrightarrow>
   doubleAuth h r s = Inl (ErrorResponse StatusNotFound NOT_FOUND)"
  by (auto simp: doubleAuth_def Let_def Atoi_Nil SendErrorResponse_simps split: sum.splits)

lemma doubleAuth_forbidden:
  "Atoi (PathValue_workoutId r) = Some wpId \<Longrightarrow>
   GetUserInfoFromContext (Context r) = Some userInfo \<Longrightarrow>
   GetWorkoutById h wpId s = Inr wp \<Longrightarrow> swp_UserId wp \<noteq> ui_Id userInfo \<Longrightarrow>
   doubleAuth h r s = Inl (ErrorResponse StatusForbidden FORBIDDEN)"
  by (auto simp: doubleAuth_def Let_def Atoi_Nil SendErrorResponse_simps split: sum.splits)

lemma doubleAuth_body:
  "doubleAuth h \<lparr>Header_Authorization = a, PathValue_workoutId = PathValue_workoutId r,
                  Context = Context r, Body = b\<rparr> s = doubleAuth h r s"
  by (simp add: doubleAuth_def Let_def split: option.splits)

lemma by_id_handler_doubleAuth_Inl:
  "doubleAuth h r s = Inl response \<Longrightarrow> by_id_handler h op r s = (response, s)"
  by (cases op)
    (simp_all add: GetWorkoutPlanById_def UpdateExercisePlansInWorkoutPlan_def
      CompleteWorkoutPlanById_def ScheduleWorkoutPlanById_def DeleteWoroutPlanById_def
      doubleAuth_body)

lemma by_id_handler_effect_doubleAuth:
  assumes "by_id_handler h op r s = (out, s')" and "s' \<noteq> s \<or> is_success out"
  shows "\<exists>i. doubleAuth h r s = Inr i"
proof (cases "doubleAuth h r s")
  case (Inl response)
  with assms by_id_handler_doubleAuth_Inl[OF Inl, of op] doubleAuth_Inl_not_success[OF Inl]
  show ?thesis by auto
next
  case (Inr i)
  then show ?thesis by blast
qed

lemma Atoi_1: "Atoi ''1'' = Some 1"
  by (simp add: Atoi_def is_digit_def)

lemma Atoi_7: "Atoi ''7'' = Some 7"
  by (simp add: Atoi_def is_digit_def)

lemma Atoi_examples:
  "Atoi ''-12'' = Some (- 12)" "Atoi ''12a'' = None" "Atoi ''9223372036854775808'' = None"
  by (simp_all add: Atoi_def is_digit_def)

lemma get1: "GetWorkoutById NewWPService 1 example_db = Inr (toServiceWP (hd (workout_plans example_db)) (exercise_plans example_db))"
  using WorkoutService_GetWorkoutById_ok[OF example_db_works, of 1]
  by (simp add: NewWPService_def example_db_def)

lemma get7: "GetWorkoutById NewWPService 7 example_db = Inl (Errorf_w ErrNotFound)"
  using WorkoutService_GetWorkoutById_ok[OF example_db_works, of 7]
  by (simp add: NewWPService_def example_db_def)

text \<open>
  Claim C1. Every protected by-id handler (get, update exercise plans, complete, schedule,
  delete), for any implementation of the workout service: once the path id is an integer
  and the context holds the caller, a plan that cannot be fetched gives the not-found
  response and a plan of another user gives the forbidden response, both with the state
  untouched; and the state changes or a success response is sent only if the plan was
  fetched and its owner is the caller.
\<close>

theorem by_id_operations_gated:
  assumes "Atoi (PathValue_workoutId r) = Some wpId"
    and "GetUserInfoFromContext (Context r) = Some userInfo"
  shows "((\<forall>wp. GetWorkoutById h wpId s \<noteq> Inr wp) \<longrightarrow>
            by_id_handler h op r s = (ErrorResponse StatusNotFound NOT_FOUND, s))
       \<and> (\<forall>wp. GetWorkoutById h wpId s = Inr wp \<and> swp_UserId wp \<noteq> ui_Id userInfo \<longrightarrow>
            by_id_handler h op r s = (ErrorResponse StatusForbidden FORBIDDEN, s))
       \<and> (\<forall>out s'. by_id_handler h op r s = (out, s') \<and> (s' \<noteq> s \<or> is_success out) \<longrightarrow>
            (\<exists>wp. GetWorkoutById h wpId s = Inr wp \<and> swp_UserId wp = ui_Id userInfo))"
proof (intro conjI allI impI)
  assume "\<forall>wp. GetWorkoutById h wpId s \<noteq> Inr wp"
  then show "by_id_handler h op r s = (ErrorResponse StatusNotFound NOT_FOUND, s)"
    using assms by (simp add: by_id_handler_doubleAuth_Inl doubleAuth_not_found)
next
  fix wp
  assume "GetWorkoutById h wpId s = Inr wp \<and> swp_UserId wp \<noteq> ui_Id userInfo"
  then show "by_id_handler h op r s = (ErrorResponse StatusForbidden FORBIDDEN, s)"
    using assms by (simp add: by_id_handler_doubleAuth_Inl doubleAuth_forbidden)
next
  fix out s'
  assume "by_id_handler h op r s = (out, s') \<and> (s' \<noteq> s \<or> is_success out)"
  then have "\<exists>i. doubleAuth h r s = Inr i"
    using by_id_handler_effect_doubleAuth[of h op r s out s'] by simp
  then obtain i where "doubleAuth h r s = Inr i" ..
  from doubleAuth_Inr[OF this] assms
  show "\<exists>wp. GetWorkoutById h wpId s = Inr wp \<and> swp_UserId wp = ui_Id userInfo"
    by auto
qed

theorem by_id_operations_gated_witness:
  "Atoi (PathValue_workoutId (example_request 2 ''1'')) = Some 1
   \<and> GetUserInfoFromContext (Context (example_request 2 ''1''))
       = Some \<lparr>ui_Id = 2, ui_Email = [], ui_Name = []\<rparr>
   \<and> by_id_handler NewWPService OpDelete (example_request 2 ''1'') example_db
       = (ErrorResponse StatusForbidden FORBIDDEN, example_db)
   \<and> Atoi (PathValue_workoutId (example_request 1 ''7'')) = Some 7
   \<and> by_id_handler NewWPService (OpComplete (Some \<lparr>cb_Comment = None\<rparr>))
        (example_request 1 ''7'') example_db
       = (ErrorResponse StatusNotFound NOT_FOUND, example_db)"
proof -
  have p1: "Atoi (PathValue_workoutId (example_request 2 ''1'')) = Some 1"
    by (simp add: example_request_def Atoi_1)
  have u1: "GetUserInfoFromContext (Context (example_request 2 ''1''))
       = Some \<lparr>ui_Id = 2, ui_Email = [], ui_Name = []\<rparr>"
    by (simp add: example_request_def GetUserInfoFromContext_def)
  have p7: "Atoi (PathValue_workoutId (example_request 1 ''7'')) = Some 7"
    by (simp add: example_request_def Atoi_7)
  have u7: "GetUserInfoFromContext (Context (example_request 1 ''7''))
       = Some \<lparr>ui_Id = 1, ui_Email = [], ui_Name = []\<rparr>"
    by (simp add: example_request_def GetUserInfoFromContext_def)
  have owner: "swp_UserId (toServiceWP (hd (workout_plans example_db)) (exercise_plans example_db)) \<noteq> 2"
    by (simp add: toServiceWP_def example_db_def)
  show ?thesis
    using by_id_operations_gated[OF p1 u1, of NewWPService example_db OpDelete]
      by_id_operations_gated[OF p7 u7, of NewWPService example_db "OpComplete (Some \<lparr>cb_Comment = None\<rparr>)"]
      p1 u1 p7 get1 get7 owner
    by simp
qed

section \<open>Progress report\<close>

lemma progress_db_works: "driver_works progress_db"
  by (simp add: driver_works_def progress_db_def example_db_def)

text \<open>
  Claim C7. For a user with N stored workout plans, K of them completed: every report
  that \<^verbatim>\<open>Progress\<close> returns is exactly K completed out of N in total; it returns one
  whenever the database answers, zero out of zero for a user without plans; and it fails
  exactly when one of its two listings fails.
\<close>

theorem Progress_counts:
  "(\<forall>p. ReportService_Progress userID d = Inr p \<longrightarrow>
        p = \<lparr>CompleteWorkouts =
               int (length (filter (\<lambda>wp. wp_Status wp = COMPLETED) (plans_of userID d))),
             TotalWorkouts = int (length (plans_of userID d))\<rparr>)
   \<and> (driver_works d \<longrightarrow>
        ReportService_Progress userID d =
          Inr \<lparr>CompleteWorkouts =
                 int (length (filter (\<lambda>wp. wp_Status wp = COMPLETED) (plans_of userID d))),
               TotalWorkouts = int (length (plans_of userID d))\<rparr>)
   \<and> (driver_works d \<and> plans_of userID d = [] \<longrightarrow>
        ReportService_Progress userID d = Inr \<lparr>CompleteWorkouts = 0, TotalWorkouts = 0\<rparr>)
   \<and> ((\<exists>err. ReportService_Progress userID d = Inl err) \<longleftrightarrow>
        (\<exists>err. WPRepo_ListWorkoutsByStatus userID COMPLETED True d = Inl err)
        \<or> (\<exists>err. WPRepo_ListUserWorkouts userID d = Inl err))"
proof -
  have filter_eq: "filter (\<lambda>wp. wp_Status wp = COMPLETED) (plans_of userID d) =
      filter (\<lambda>wp. wp_UserId wp = userID \<and> wp_Status wp = COMPLETED) (workout_plans d)"
    by (simp add: plans_of_def conj_commute)
  have returned: "\<forall>p. ReportService_Progress userID d = Inr p \<longrightarrow>
        p = \<lparr>CompleteWorkouts =
               int (length (filter (\<lambda>wp. wp_Status wp = COMPLETED) (plans_of userID d))),
             TotalWorkouts = int (length (plans_of userID d))\<rparr>"
  proof (intro allI impI)
    fix p
    assume "ReportService_Progress userID d = Inr p"
    then obtain completed all_plans
      where c: "WPRepo_ListWorkoutsByStatus userID COMPLETED True d = Inr completed"
        and a: "WPRepo_ListUserWorkouts userID d = Inr all_plans"
        and p: "p = \<lparr>CompleteWorkouts = int (length completed),
                       TotalWorkouts = int (length all_plans)\<rparr>"
      by (auto simp: ReportService_Progress_def split: sum.splits)
    from WPRepo_ListWorkoutsByStatus_Inr[OF c] WPRepo_ListUserWorkouts_Inr[OF a] p
    show "p = \<lparr>CompleteWorkouts =
               int (length (filter (\<lambda>wp. wp_Status wp = COMPLETED) (plans_of userID d))),
             TotalWorkouts = int (length (plans_of userID d))\<rparr>"
      by (simp add: filter_eq) (simp add: plans_of_def)
  qed
  have works: "driver_works d \<longrightarrow>
        ReportService_Progress userID d =
          Inr \<lparr>CompleteWorkouts =
                 int (length (filter (\<lambda>wp. wp_Status wp = COMPLETED) (plans_of userID d))),
               TotalWorkouts = int (length (plans_of userID d))\<rparr>"
    unfolding filter_eq
    by (simp add: ReportService_Progress_def WPRepo_ListWorkoutsByStatus_ok
        WPRepo_ListUserWorkouts_ok plans_of_def)
  have fails: "(\<exists>err. ReportService_Progress userID d = Inl err) \<longleftrightarrow>
        (\<exists>err. WPRepo_ListWorkoutsByStatus userID COMPLETED True d = Inl err)
        \<or> (\<exists>err. WPRepo_ListUserWorkouts userID d = Inl err)"
    by (auto simp: ReportService_Progress_def split: sum.splits)
  show ?thesis
  proof (intro conjI)
    show "\<forall>p. ReportService_Progress userID d = Inr p \<longrightarrow>
        p = \<lparr>CompleteWorkouts =
               int (length (filter (\<lambda>wp. wp_Status wp = COMPLETED) (plans_of userID d))),
             TotalWorkouts = int (length (plans_of userID d))\<rparr>"
      by (rule returned)
    show "driver_works d \<longrightarrow>
        ReportService_Progress userID d =
          Inr \<lparr>CompleteWorkouts =
                 int (length (filter (\<lambda>wp. wp_Status wp = COMPLETED) (plans_of userID d))),
               TotalWorkouts = int (length (plans_of userID d))\<rparr>"
      by (rule works)
    show "driver_works d \<and> plans_of userID d = [] \<longrightarrow>
        ReportService_Progress userID d = Inr \<lparr>CompleteWorkouts = 0, TotalWorkouts = 0\<rparr>"
      using works by simp
    show "(\<exists>err. ReportService_Progress userID d = Inl err) \<longleftrightarrow>
        (\<exists>err. WPRepo_ListWorkoutsByStatus userID COMPLETED True d = Inl err)
        \<or> (\<exists>err. WPRepo_ListUserWorkouts userID d = Inl err)"
      by (rule fails)
  qed
qed

theorem Progress_counts_witness:
  "driver_works progress_db
   \<and> ReportService_Progress 1 progress_db = Inr \<lparr>CompleteWorkouts = 2, TotalWorkouts = 4\<rparr>
   \<and> ReportService_Progress 2 progress_db = Inr \<lparr>CompleteWorkouts = 1, TotalWorkouts = 1\<rparr>
   \<and> plans_of 3 progress_db = []
   \<and> ReportService_Progress 3 progress_db = Inr \<lparr>CompleteWorkouts = 0, TotalWorkouts = 0\<rparr>"
proof -
  have counts:
    "length (filter (\<lambda>wp. wp_Status wp = COMPLETED) (plans_of 1 progress_db)) = 2"
    "length (plans_of 1 progress_db) = 4"
    "length (filter (\<lambda>wp. wp_Status wp = COMPLETED) (plans_of 2 progress_db)) = 1"
    "length (plans_of 2 progress_db) = 1"
    "plans_of 3 progress_db = []"
    by (simp_all add: plans_of_def progress_db_def)
  show ?thesis
    using Progress_counts[of 1 progress_db, THEN conjunct2, THEN conjunct1]
      Progress_counts[of 2 progress_db, THEN conjunct2, THEN conjunct1]
      Progress_counts[of 3 progress_db, THEN conjunct2, THEN conjunct1] progress_db_works
    by (simp add: counts)
qed

section \<open>Deleting a workout plan\<close>

lemma Rollback_same_sequences:
  "users_id_seq d' = users_id_seq d \<Longrightarrow> workout_plans_id_seq d' = workout_plans_id_seq d \<Longrightarrow>
   exercise_plans_id_seq d' = exercise_plans_id_seq d \<Longrightarrow> Rollback d d' = d"
  by (simp add: Rollback_def)

lemma DELETE_workout_plans_after_exercise_plans:
  "DELETE_workout_plans wpId
     (d\<lparr>exercise_plans := sql_delete (\<lambda>ep. ep_WorkoutPlanId ep = wpId) (exercise_plans d)\<rparr>) =
   (Inr (RowsAffected (\<lambda>wp. wp_Id wp = wpId) (workout_plans d)),
    d\<lparr>exercise_plans := sql_delete (\<lambda>ep. ep_WorkoutPlanId ep = wpId) (exercise_plans d),
      workout_plans := sql_delete (\<lambda>wp. wp_Id wp = wpId) (workout_plans d)\<rparr>)"
  by (simp add: DELETE_workout_plans_def sql_delete_def list_ex_iff)

lemma RowsAffected_zero: "RowsAffected P xs = 0 \<longleftrightarrow> \<not> list_ex P xs"
  by (simp add: RowsAffected_def list_ex_filter_length)

lemma WPRepo_DeleteWorkoutById_Inr:
  assumes "WPRepo_DeleteWorkoutById wpId d = (Inr (), d')"
  shows "list_ex (\<lambda>wp. wp_Id wp = wpId) (workout_plans d)
    \<and> d' = d\<lparr>exercise_plans := sql_delete (\<lambda>ep. ep_WorkoutPlanId ep = wpId) (exercise_plans d),
             workout_plans := sql_delete (\<lambda>wp. wp_Id wp = wpId) (workout_plans d)\<rparr>"
  using assms
  by (auto simp: WPRepo_DeleteWorkoutById_def executeTransaction_def Tx_ExecContext_def
      DELETE_exercise_plans_of_workout_def DELETE_workout_plans_after_exercise_plans
      RowsAffected_zero
      split: option.splits if_splits)

lemma WPRepo_DeleteWorkoutById_Inl:
  assumes "WPRepo_DeleteWorkoutById wpId d = (Inl err, d')"
  shows "d' = d"
  using assms
  by (auto simp: WPRepo_DeleteWorkoutById_def executeTransaction_def Tx_ExecContext_def
      DELETE_exercise_plans_of_workout_def DELETE_workout_plans_after_exercise_plans
      Rollback_def
      split: option.splits if_splits)

lemma WPRepo_DeleteWorkoutById_ok:
  assumes "driver_works d"
  shows "WPRepo_DeleteWorkoutById wpId d =
    (if list_ex (\<lambda>wp. wp_Id wp = wpId) (workout_plans d)
     then (Inr (), d\<lparr>exercise_plans := sql_delete (\<lambda>ep. ep_WorkoutPlanId ep = wpId) (exercise_plans d),
             workout_plans := sql_delete (\<lambda>wp. wp_Id wp = wpId) (workout_plans d)\<rparr>)
     else (Inl (Errorf_w ErrNotFound), d))"
  using assms
  by (simp add: WPRepo_DeleteWorkoutById_def executeTransaction_def Tx_ExecContext_def
      DELETE_exercise_plans_of_workout_def DELETE_workout_plans_after_exercise_plans
      RowsAffected_zero Rollback_def driver_works_def)

lemma WPRepo_DeleteWorkoutById_commit_fails:
  assumes "driver d BeginTx = None"
    and "driver d (Exec DeleteWorkoutById_delete_exercise_plans) = None"
    and "driver d (Exec DeleteWorkoutById_delete_workout_plan) = None"
    and "driver d (Result_RowsAffected DeleteWorkoutById_delete_workout_plan) = None"
    and "driver d Commit = Some err"
    and "list_ex (\<lambda>wp. wp_Id wp = wpId) (workout_plans d)"
  shows "WPRepo_DeleteWorkoutById wpId d = (Inl (Errorf_w err), d)"
  using assms
  by (simp add: WPRepo_DeleteWorkoutById_def executeTransaction_def Tx_ExecContext_def
      DELETE_exercise_plans_of_workout_def DELETE_workout_plans_after_exercise_plans
      RowsAffected_zero Rollback_def)

text \<open>
  Claim C6. \<^verbatim>\<open>DeleteWorkoutById\<close> runs both DELETE statements in one transaction.
  Whenever it succeeds, a plan with the id existed and the store is left without any plan
  row of that id and without any exercise-plan row referencing it, all other rows as they
  were. Whenever it fails, for whatever reason, the store is exactly as before: no
  exercise-plan row stays deleted. It succeeds if the plan exists and the database answers.
  If no plan has the id it always fails, with the not-found error when the database
  answers.
\<close>

theorem DeleteWorkoutById_cascade:
  "(\<forall>d'. WPRepo_DeleteWorkoutById wpId d = (Inr (), d') \<longrightarrow>
        list_ex (\<lambda>wp. wp_Id wp = wpId) (workout_plans d)
        \<and> workout_plans d' = filter (\<lambda>wp. wp_Id wp \<noteq> wpId) (workout_plans d)
        \<and> exercise_plans d' = filter (\<lambda>ep. ep_WorkoutPlanId ep \<noteq> wpId) (exercise_plans d)
        \<and> users d' = users d \<and> exercises d' = exercises d)
   \<and> (\<forall>err d'. WPRepo_DeleteWorkoutById wpId d = (Inl err, d') \<longrightarrow> d' = d)
   \<and> (driver_works d \<and> list_ex (\<lambda>wp. wp_Id wp = wpId) (workout_plans d) \<longrightarrow>
        (\<exists>d'. WPRepo_DeleteWorkoutById wpId d = (Inr (), d')))
   \<and> (\<not> list_ex (\<lambda>wp. wp_Id wp = wpId) (workout_plans d) \<longrightarrow>
        (\<exists>err. WPRepo_DeleteWorkoutById wpId d = (Inl err, d))
        \<and> (driver_works d \<longrightarrow>
             WPRepo_DeleteWorkoutById wpId d = (Inl (Errorf_w ErrNotFound), d)
             \<and> errors_Is (Errorf_w ErrNotFound) ErrNotFound))"
proof (intro conjI allI impI)
  fix d'
  assume ok: "WPRepo_DeleteWorkoutById wpId d = (Inr (), d')"
  from WPRepo_DeleteWorkoutById_Inr[OF ok]
  show "list_ex (\<lambda>wp. wp_Id wp = wpId) (workout_plans d)"
    and "workout_plans d' = filter (\<lambda>wp. wp_Id wp \<noteq> wpId) (workout_plans d)"
    and "exercise_plans d' = filter (\<lambda>ep. ep_WorkoutPlanId ep \<noteq> wpId) (exercise_plans d)"
    and "users d' = users d" and "exercises d' = exercises d"
    by (simp_all add: sql_delete_def)
next
  fix err d'
  assume "WPRepo_DeleteWorkoutById wpId d = (Inl err, d')"
  then show "d' = d" by (rule WPRepo_DeleteWorkoutById_Inl)
next
  assume "driver_works d \<and> list_ex (\<lambda>wp. wp_Id wp = wpId) (workout_plans d)"
  then show "\<exists>d'. WPRepo_DeleteWorkoutById wpId d = (Inr (), d')"
    by (simp add: WPRepo_DeleteWorkoutById_ok)
next
  assume absent: "\<not> list_ex (\<lambda>wp. wp_Id wp = wpId) (workout_plans d)"
  obtain res d' where res: "WPRepo_DeleteWorkoutById wpId d = (res, d')"
    by (cases "WPRepo_DeleteWorkoutById wpId d")
  show "\<exists>err. WPRepo_DeleteWorkoutById wpId d = (Inl err, d)"
  proof (cases res)
    case (Inl err)
    with res WPRepo_DeleteWorkoutById_Inl[of wpId d err d'] show ?thesis by auto
  next
    case (Inr u)
    with res WPRepo_DeleteWorkoutById_Inr[of wpId d d'] absent show ?thesis by auto
  qed
next
  assume "\<not> list_ex (\<lambda>wp. wp_Id wp = wpId) (workout_plans d)" and "driver_works d"
  then show "WPRepo_DeleteWorkoutById wpId d = (Inl (Errorf_w ErrNotFound), d)"
    by (simp add: WPRepo_DeleteWorkoutById_ok)
next
  show "errors_Is (Errorf_w ErrNotFound) ErrNotFound" by simp
qed

theorem DeleteWorkoutById_cascade_witness:
  "driver_works example_db
   \<and> list_ex (\<lambda>wp. wp_Id wp = 1) (workout_plans example_db)
   \<and> (\<exists>d'. WPRepo_DeleteWorkoutById 1 example_db = (Inr (), d')
         \<and> workout_plans d' = [] \<and> exercise_plans d' = [])
   \<and> \<not> list_ex (\<lambda>wp. wp_Id wp = 7) (workout_plans example_db)
   \<and> WPRepo_DeleteWorkoutById 7 example_db = (Inl (Errorf_w ErrNotFound), example_db)
   \<and> WPRepo_DeleteWorkoutById 1 (example_db\<lparr>driver := (\<lambda>call. if call = Commit then Some Errorf_v else None)\<rparr>)
       = (Inl (Errorf_w Errorf_v),
          example_db\<lparr>driver := (\<lambda>call. if call = Commit then Some Errorf_v else None)\<rparr>)"
proof -
  let ?broken = "example_db\<lparr>driver := (\<lambda>call. if call = Commit then Some Errorf_v else None)\<rparr>"
  have present: "list_ex (\<lambda>wp. wp_Id wp = 1) (workout_plans example_db)"
    by (simp add: example_db_def)
  have absent: "\<not> list_ex (\<lambda>wp. wp_Id wp = 7) (workout_plans example_db)"
    by (simp add: example_db_def)
  have plans: "filter (\<lambda>wp. wp_Id wp \<noteq> 1) (workout_plans example_db) = []"
    by (simp add: example_db_def)
  have eps: "filter (\<lambda>ep. ep_WorkoutPlanId ep \<noteq> 1) (exercise_plans example_db) = []"
    by (simp add: example_db_def)
  note thm1 = DeleteWorkoutById_cascade[of 1 example_db]
  from thm1 example_db_works present
  obtain d' where run: "WPRepo_DeleteWorkoutById 1 example_db = (Inr (), d')"
    by blast
  with thm1 have "workout_plans d' = filter (\<lambda>wp. wp_Id wp \<noteq> 1) (workout_plans example_db)"
    and "exercise_plans d' = filter (\<lambda>ep. ep_WorkoutPlanId ep \<noteq> 1) (exercise_plans example_db)"
    by blast+
  with run plans eps have deleted: "\<exists>d'. WPRepo_DeleteWorkoutById 1 example_db = (Inr (), d')
         \<and> workout_plans d' = [] \<and> exercise_plans d' = []"
    by simp
  from DeleteWorkoutById_cascade[of 7 example_db] absent example_db_works
  have missing: "WPRepo_DeleteWorkoutById 7 example_db = (Inl (Errorf_w ErrNotFound), example_db)"
    by blast
  have "WPRepo_DeleteWorkoutById 1 ?broken = (Inl (Errorf_w Errorf_v), ?broken)"
    by (rule WPRepo_DeleteWorkoutById_commit_fails) (simp_all add: example_db_def)
  with DeleteWorkoutById_cascade[of 1 ?broken, THEN conjunct2, THEN conjunct1]
  have broken: "WPRepo_DeleteWorkoutById 1 ?broken = (Inl (Errorf_w Errorf_v), ?broken)"
    by simp
  from example_db_works present deleted absent missing broken show ?thesis by blast
qed

section \<open>Updating a workout plan\<close>

lemma find_sql_update:
  "(\<And>r. P r \<Longrightarrow> P (f r)) \<Longrightarrow> find P (sql_update P f xs) = map_option f (find P xs)"
  by (induction xs) (auto simp: sql_update_def)

lemma list_ex_sql_update:
  "(\<And>r. P r \<Longrightarrow> P (f r) \<and> Q (f r)) \<Longrightarrow> list_ex P xs \<Longrightarrow>
   list_ex (\<lambda>r. P r \<and> Q r) (sql_update P f xs)"
  by (induction xs) (auto simp: sql_update_def)

lemma not_list_ex_sql_update:
  "(\<And>r. P r \<Longrightarrow> \<not> Q (f r)) \<Longrightarrow> \<not> list_ex (\<lambda>r. P r \<and> Q r) (sql_update P f xs)"
  by (induction xs) (auto simp: sql_update_def)

lemma UPDATE_workout_plans_eq:
  "UPDATE_workout_plans (Some (uwp_Status data)) (uwp_ScheduledDate data) (uwp_Comment data)
     (uwp_Id data) d =
   (case find (\<lambda>wp. wp_Id wp = uwp_Id data) (workout_plans d) of
      None \<Rightarrow> (Inl ErrNoRows, d)
    | Some old \<Rightarrow>
        if check_status (uwp_Status data)
        then (Inr (updated_workout_plan data (CURRENT_TIMESTAMP d) old),
              d\<lparr>workout_plans :=
                   sql_update (\<lambda>wp. wp_Id wp = uwp_Id data)
                     (updated_workout_plan data (CURRENT_TIMESTAMP d)) (workout_plans d)\<rparr>)
        else (Inl (PqError check_violation), d))"
proof -
  let ?P = "\<lambda>wp. wp_Id wp = uwp_Id data"
  let ?f = "\<lambda>wp. wp\<lparr>wp_Status := COALESCE (Some (uwp_Status data)) (wp_Status wp),
                       wp_ScheduledDate := COALESCE (uwp_ScheduledDate data) (wp_ScheduledDate wp),
                       wp_Comment := COALESCE_nullable (uwp_Comment data) (wp_Comment wp),
                       wp_UpdatedAt := CURRENT_TIMESTAMP d\<rparr>"
  have f: "?f = updated_workout_plan data (CURRENT_TIMESTAMP d)"
    by (rule ext) (simp add: updated_workout_plan_def COALESCE_def COALESCE_nullable_def)
  have keep: "\<And>r. ?P r \<Longrightarrow> ?P (updated_workout_plan data (CURRENT_TIMESTAMP d) r)"
    by (simp add: updated_workout_plan_def)
  have found: "find ?P (sql_update ?P (updated_workout_plan data (CURRENT_TIMESTAMP d)) (workout_plans d))
      = map_option (updated_workout_plan data (CURRENT_TIMESTAMP d)) (find ?P (workout_plans d))"
    by (rule find_sql_update) (rule keep)
  show ?thesis
  proof (cases "find ?P (workout_plans d)")
    case None
    then have "\<not> list_ex ?P (workout_plans d)" by (simp add: find_None_list_ex)
    then have "sql_update ?P (updated_workout_plan data (CURRENT_TIMESTAMP d)) (workout_plans d) = workout_plans d"
      by (simp add: sql_update_def list_ex_iff cong: map_cong)
    then show ?thesis
      unfolding UPDATE_workout_plans_def Let_def f
      using None \<open>\<not> list_ex ?P (workout_plans d)\<close>
      by (auto simp: list_ex_iff)
  next
    case (Some old)
    then have ex: "list_ex ?P (workout_plans d)" by (rule find_Some_list_ex)
    show ?thesis
    proof (cases "check_status (uwp_Status data)")
      case True
      have "\<not> list_ex (\<lambda>wp. ?P wp \<and> \<not> check_status (wp_Status wp))
          (sql_update ?P (updated_workout_plan data (CURRENT_TIMESTAMP d)) (workout_plans d))"
        by (rule not_list_ex_sql_update) (simp add: updated_workout_plan_def True)
      then show ?thesis
        unfolding UPDATE_workout_plans_def Let_def f
        using Some True found by simp
    next
      case False
      have "list_ex (\<lambda>wp. ?P wp \<and> \<not> check_status (wp_Status wp))
          (sql_update ?P (updated_workout_plan data (CURRENT_TIMESTAMP d)) (workout_plans d))"
        by (rule list_ex_sql_update) (simp_all add: updated_workout_plan_def False ex)
      then show ?thesis
        unfolding UPDATE_workout_plans_def Let_def f
        using Some False by simp
    qed
  qed
qed

lemma WPRepo_UpdateWorkout_Inr:
  assumes "WPRepo_UpdateWorkout data d = (Inr new, d')"
  shows "\<exists>old. find (\<lambda>wp. wp_Id wp = uwp_Id data) (workout_plans d) = Some old
     \<and> check_status (uwp_Status data)
     \<and> new = updated_workout_plan data (CURRENT_TIMESTAMP d) old
     \<and> d' = d\<lparr>workout_plans :=
                 sql_update (\<lambda>wp. wp_Id wp = uwp_Id data)
                   (updated_workout_plan data (CURRENT_TIMESTAMP d)) (workout_plans d)\<rparr>"
  using assms
  by (auto simp: WPRepo_UpdateWorkout_def executeTransaction_def Row_Scan_select_def
      Row_Scan_returning_def UPDATE_workout_plans_eq
      split: option.splits if_splits sum.splits prod.splits)

lemma WPRepo_UpdateWorkout_Inl:
  assumes "WPRepo_UpdateWorkout data d = (Inl err, d')"
  shows "d' = d"
  using assms
  by (auto simp: WPRepo_UpdateWorkout_def executeTransaction_def Row_Scan_select_def
      Row_Scan_returning_def UPDATE_workout_plans_eq Rollback_def
      split: option.splits if_splits sum.splits prod.splits)

lemma WPRepo_UpdateWorkout_ok:
  assumes "driver_works d"
  shows "WPRepo_UpdateWorkout data d =
    (case find (\<lambda>wp. wp_Id wp = uwp_Id data) (workout_plans d) of
       None \<Rightarrow> (Inl (Errorf_w ErrNotFound), d)
     | Some old \<Rightarrow>
         if check_status (uwp_Status data)
         then (Inr (updated_workout_plan data (CURRENT_TIMESTAMP d) old),
               d\<lparr>workout_plans :=
                   sql_update (\<lambda>wp. wp_Id wp = uwp_Id data)
                     (updated_workout_plan data (CURRENT_TIMESTAMP d)) (workout_plans d)\<rparr>)
         else (Inl (Errorf_w (Errorf_w (PqError check_violation))), d))"
  using assms
  by (simp add: WPRepo_UpdateWorkout_def executeTransaction_def Row_Scan_select_def
      Row_Scan_returning_def UPDATE_workout_plans_eq Rollback_def
      split: option.splits)

lemma in_sql_update:
  "(\<And>r. P r \<Longrightarrow> Q (f r)) \<Longrightarrow> x \<in> set (sql_update P f xs) \<Longrightarrow> P x \<Longrightarrow> Q x"
  by (auto simp: sql_update_def split: if_splits)

lemma filter_sql_update_others:
  "(\<And>r. P r \<Longrightarrow> P (f r)) \<Longrightarrow>
   filter (\<lambda>r. \<not> P r) (sql_update P f xs) = filter (\<lambda>r. \<not> P r) xs"
  by (induction xs) (auto simp: sql_update_def)

text \<open>
  Claim C3, amended. \<^verbatim>\<open>UpdateWorkout\<close> on an existing plan: the status of \<^verbatim>\<open>UpdateWP\<close>
  is a plain string and is always passed, so the stored status is always overwritten with
  it and is never kept; a value other than pending, completed or missed (the empty zero
  value included) violates the CHECK constraint, the update fails and nothing is written.
  The scheduled date and the comment keep the stored value when the incoming pointer is
  nil and are overwritten when it is set. The update is one UPDATE statement (after a
  SELECT of the id) inside one transaction, it also sets \<^verbatim>\<open>updated_at\<close>, it touches no
  other row, and every failure leaves the store as it was.
\<close>

theorem UpdateWorkout_partial_update:
  "find (\<lambda>wp. wp_Id wp = uwp_Id data) (workout_plans d) = Some old \<longrightarrow>
     (\<forall>new d'. WPRepo_UpdateWorkout data d = (Inr new, d') \<longrightarrow>
        check_status (uwp_Status data)
        \<and> wp_Status new = uwp_Status data
        \<and> wp_ScheduledDate new =
            (case uwp_ScheduledDate data of None \<Rightarrow> wp_ScheduledDate old | Some t \<Rightarrow> t)
        \<and> wp_Comment new = (case uwp_Comment data of None \<Rightarrow> wp_Comment old | Some c \<Rightarrow> Some c)
        \<and> wp_UpdatedAt new = CURRENT_TIMESTAMP d
        \<and> wp_Id new = wp_Id old \<and> wp_UserId new = wp_UserId old
        \<and> wp_CreatedAt new = wp_CreatedAt old
        \<and> find (\<lambda>wp. wp_Id wp = uwp_Id data) (workout_plans d') = Some new
        \<and> filter (\<lambda>wp. wp_Id wp \<noteq> uwp_Id data) (workout_plans d')
            = filter (\<lambda>wp. wp_Id wp \<noteq> uwp_Id data) (workout_plans d)
        \<and> exercise_plans d' = exercise_plans d \<and> users d' = users d)
     \<and> (driver_works d \<and> check_status (uwp_Status data) \<longrightarrow>
          (\<exists>new d'. WPRepo_UpdateWorkout data d = (Inr new, d')))
     \<and> (\<not> check_status (uwp_Status data) \<longrightarrow>
          (\<exists>err. WPRepo_UpdateWorkout data d = (Inl err, d)))
     \<and> (\<forall>err d'. WPRepo_UpdateWorkout data d = (Inl err, d') \<longrightarrow> d' = d)"
proof (rule impI)
  let ?P = "\<lambda>wp. wp_Id wp = uwp_Id data"
  let ?f = "updated_workout_plan data (CURRENT_TIMESTAMP d)"
  assume old: "find ?P (workout_plans d) = Some old"
  have keep: "\<And>r. ?P r \<Longrightarrow> ?P (?f r)"
    by (simp add: updated_workout_plan_def)
  have returned: "\<forall>new d'. WPRepo_UpdateWorkout data d = (Inr new, d') \<longrightarrow>
        check_status (uwp_Status data)
        \<and> wp_Status new = uwp_Status data
        \<and> wp_ScheduledDate new =
            (case uwp_ScheduledDate data of None \<Rightarrow> wp_ScheduledDate old | Some t \<Rightarrow> t)
        \<and> wp_Comment new = (case uwp_Comment data of None \<Rightarrow> wp_Comment old | Some c \<Rightarrow> Some c)
        \<and> wp_UpdatedAt new = CURRENT_TIMESTAMP d
        \<and> wp_Id new = wp_Id old \<and> wp_UserId new = wp_UserId old
        \<and> wp_CreatedAt new = wp_CreatedAt old
        \<and> find (\<lambda>wp. wp_Id wp = uwp_Id data) (workout_plans d') = Some new
        \<and> filter (\<lambda>wp. wp_Id wp \<noteq> uwp_Id data) (workout_plans d')
            = filter (\<lambda>wp. wp_Id wp \<noteq> uwp_Id data) (workout_plans d)
        \<and> exercise_plans d' = exercise_plans d \<and> users d' = users d"
  proof (intro allI impI)
    fix new d'
    assume run: "WPRepo_UpdateWorkout data d = (Inr new, d')"
    from WPRepo_UpdateWorkout_Inr[OF run] old
    have valid: "check_status (uwp_Status data)"
      and new: "new = ?f old"
      and d': "d' = d\<lparr>workout_plans := sql_update ?P ?f (workout_plans d)\<rparr>"
      by auto
    have found: "find ?P (workout_plans d') = Some new"
      using find_sql_update[of ?P ?f "workout_plans d"] keep old by (simp add: d' new)
    have others: "filter (\<lambda>wp. wp_Id wp \<noteq> uwp_Id data) (workout_plans d')
            = filter (\<lambda>wp. wp_Id wp \<noteq> uwp_Id data) (workout_plans d)"
      using filter_sql_update_others[of ?P ?f "workout_plans d"] keep by (simp add: d')
    show "check_status (uwp_Status data)
        \<and> wp_Status new = uwp_Status data
        \<and> wp_ScheduledDate new =
            (case uwp_ScheduledDate data of None \<Rightarrow> wp_ScheduledDate old | Some t \<Rightarrow> t)
        \<and> wp_Comment new = (case uwp_Comment data of None \<Rightarrow> wp_Comment old | Some c \<Rightarrow> Some c)
        \<and> wp_UpdatedAt new = CURRENT_TIMESTAMP d
        \<and> wp_Id new = wp_Id old \<and> wp_UserId new = wp_UserId old
        \<and> wp_CreatedAt new = wp_CreatedAt old
        \<and> find (\<lambda>wp. wp_Id wp = uwp_Id data) (workout_plans d') = Some new
        \<and> filter (\<lambda>wp. wp_Id wp \<noteq> uwp_Id data) (workout_plans d')
            = filter (\<lambda>wp. wp_Id wp \<noteq> uwp_Id data) (workout_plans d)
        \<and> exercise_plans d' = exercise_plans d \<and> users d' = users d"
      using valid found others by (simp add: new updated_workout_plan_def d')
  qed
  have succeeds: "driver_works d \<and> check_status (uwp_Status data) \<longrightarrow>
          (\<exists>new d'. WPRepo_UpdateWorkout data d = (Inr new, d'))"
    using old by (simp add: WPRepo_UpdateWorkout_ok)
  have unchanged: "\<forall>err d'. WPRepo_UpdateWorkout data d = (Inl err, d') \<longrightarrow> d' = d"
    using WPRepo_UpdateWorkout_Inl by blast
  have rejected: "\<not> check_status (uwp_Status data) \<longrightarrow>
          (\<exists>err. WPRepo_UpdateWorkout data d = (Inl err, d))"
  proof
    assume invalid: "\<not> check_status (uwp_Status data)"
    obtain res d' where res: "WPRepo_UpdateWorkout data d = (res, d')"
      by (cases "WPRepo_UpdateWorkout data d")
    show "\<exists>err. WPRepo_UpdateWorkout data d = (Inl err, d)"
    proof (cases res)
      case (Inl err)
      with res unchanged show ?thesis by auto
    next
      case (Inr new)
      with res WPRepo_UpdateWorkout_Inr[of data d new d'] invalid show ?thesis by auto
    qed
  qed
  from returned succeeds rejected unchanged
  show "(\<forall>new d'. WPRepo_UpdateWorkout data d = (Inr new, d') \<longrightarrow>
        check_status (uwp_Status data)
        \<and> wp_Status new = uwp_Status data
        \<and> wp_ScheduledDate new =
            (case uwp_ScheduledDate data of None \<Rightarrow> wp_ScheduledDate old | Some t \<Rightarrow> t)
        \<and> wp_Comment new = (case uwp_Comment data of None \<Rightarrow> wp_Comment old | Some c \<Rightarrow> Some c)
        \<and> wp_UpdatedAt new = CURRENT_TIMESTAMP d
        \<and> wp_Id new = wp_Id old \<and> wp_UserId new = wp_UserId old
        \<and> wp_CreatedAt new = wp_CreatedAt old
        \<and> find (\<lambda>wp. wp_Id wp = uwp_Id data) (workout_plans d') = Some new
        \<and> filter (\<lambda>wp. wp_Id wp \<noteq> uwp_Id data) (workout_plans d')
            = filter (\<lambda>wp. wp_Id wp \<noteq> uwp_Id data) (workout_plans d)
        \<and> exercise_plans d' = exercise_plans d \<and> users d' = users d)
     \<and> (driver_works d \<and> check_status (uwp_Status data) \<longrightarrow>
          (\<exists>new d'. WPRepo_UpdateWorkout data d = (Inr new, d')))
     \<and> (\<not> check_status (uwp_Status data) \<longrightarrow>
          (\<exists>err. WPRepo_UpdateWorkout data d = (Inl err, d)))
     \<and> (\<forall>err d'. WPRepo_UpdateWorkout data d = (Inl err, d') \<longrightarrow> d' = d)"
    by blast
qed

lemma example_plan_1:
  "find (\<lambda>wp. wp_Id wp = 1) (workout_plans example_db) =
     Some \<lparr>wp_Id = 1, wp_UserId = 1, wp_Status = PENDING, wp_ScheduledDate = 100,
           wp_Comment = None, wp_CreatedAt = 30, wp_UpdatedAt = 30\<rparr>"
  by (simp add: example_db_def)

text \<open>
  The claim as stated fails where the status is left out of the \<^verbatim>\<open>UpdateWP\<close> value (the
  empty string) and a comment is supplied: the stored status is not kept by the statement,
  the update is rejected, and the supplied comment is not written.
\<close>

theorem UpdateWorkout_absent_status_counterexample:
  "WPRepo_UpdateWorkout
     \<lparr>uwp_Id = 1, uwp_Status = [], uwp_ScheduledDate = None, uwp_Comment = Some ''done''\<rparr>
     example_db
   = (Inl (Errorf_w (Errorf_w (PqError check_violation))), example_db)
   \<and> map wp_Status (workout_plans example_db) = [PENDING]
   \<and> map wp_Comment (workout_plans example_db) = [None]"
proof -
  have "WPRepo_UpdateWorkout
     \<lparr>uwp_Id = 1, uwp_Status = [], uwp_ScheduledDate = None, uwp_Comment = Some ''done''\<rparr>
     example_db
   = (Inl (Errorf_w (Errorf_w (PqError check_violation))), example_db)"
    using example_plan_1
    by (simp add: WPRepo_UpdateWorkout_ok[OF example_db_works] check_status_def)
  then show ?thesis by (simp add: example_db_def)
qed

theorem UpdateWorkout_partial_update_witness:
  "find (\<lambda>wp. wp_Id wp = 1) (workout_plans example_db) =
     Some \<lparr>wp_Id = 1, wp_UserId = 1, wp_Status = PENDING, wp_ScheduledDate = 100,
           wp_Comment = None, wp_CreatedAt = 30, wp_UpdatedAt = 30\<rparr>
   \<and> driver_works example_db \<and> check_status COMPLETED
   \<and> (\<exists>new d'. WPRepo_UpdateWorkout
          \<lparr>uwp_Id = 1, uwp_Status = COMPLETED, uwp_ScheduledDate = None,
           uwp_Comment = Some ''done''\<rparr> example_db = (Inr new, d')
        \<and> wp_Status new = COMPLETED \<and> wp_ScheduledDate new = 100
        \<and> wp_Comment new = Some ''done'' \<and> wp_UpdatedAt new = 1000
        \<and> find (\<lambda>wp. wp_Id wp = 1) (workout_plans d') = Some new)"
proof -
  let ?data = "\<lparr>uwp_Id = 1, uwp_Status = COMPLETED, uwp_ScheduledDate = None,
           uwp_Comment = Some ''done''\<rparr>"
  let ?old = "\<lparr>wp_Id = 1, wp_UserId = 1, wp_Status = PENDING, wp_ScheduledDate = 100,
           wp_Comment = None, wp_CreatedAt = 30, wp_UpdatedAt = 30\<rparr>"
  have old: "find (\<lambda>wp. wp_Id wp = uwp_Id ?data) (workout_plans example_db) = Some ?old"
    using example_plan_1 by simp
  have valid: "check_status COMPLETED" by (simp add: check_status_def)
  have now: "CURRENT_TIMESTAMP example_db = 1000" by (simp add: example_db_def)
  note inst = UpdateWorkout_partial_update[of ?data example_db ?old, rule_format, OF old]
  from inst example_db_works valid
  obtain new d' where run: "WPRepo_UpdateWorkout ?data example_db = (Inr new, d')"
    by auto
  from inst run have "wp_Status new = COMPLETED \<and> wp_ScheduledDate new = 100
        \<and> wp_Comment new = Some ''done'' \<and> wp_UpdatedAt new = 1000
        \<and> find (\<lambda>wp. wp_Id wp = 1) (workout_plans d') = Some new"
    using now by auto
  with run example_plan_1 example_db_works valid show ?thesis by blast
qed

end
